theory Spec2Isabelle
  imports Complex_Main
begin

section \<open>Slice-of-Day resource adequacy: the model built by \<open>resource_adequacy_SOD.py\<close>\<close>

text \<open>
  The module declares parameters, named expressions, decision variables and constraints
  on a Pyomo model. This theory embeds what \<open>define_components\<close> builds: every rule of
  the module is a function from the model and an index to the expression or constraint
  the rule returns there, a parameter table is a partial map whose missing entries make
  the lookup fail, and the whole build is a function from the loaded model to either the
  first failure or the model with its components filled in. Numbers are real numbers;
  the literal \<open>0.8\<close> of the source is the real number \<open>4/5\<close>.
\<close>

subsection \<open>Indices, expressions and constraints\<close>

type_synonym gen = string
type_synonym period = int
type_synonym month = int
type_synonym hour = int
type_synonym tech = string
type_synonym region = string
type_synonym resource_id = string

text \<open>
  The leaves of an expression that the solver assigns a value to: the four decision
  variables of this module, and \<open>GenCapacity[g, p]\<close>, an expression owned by the
  generator-build module, which this module only reads.
\<close>

datatype atom =
    NewRA_at period month
  | StorageDischarge_at period month hour
  | StorageCharge_at period month hour
  | StorageState_at period month hour
  | GenCapacity_at gen period

datatype expr =
    Num real
  | Ref atom
  | Plus expr expr
  | Minus expr expr
  | Times expr expr

datatype constraint =
    GE expr expr
  | LE expr expr
  | EQ expr expr

datatype domain = Reals_domain | NonNegativeReals_domain | Binary_domain

text \<open>
  Reading a parameter fails when the index has no value and the parameter has no
  default (Pyomo raises \<open>ValueError\<close>) or when the index is outside the parameter's index
  set (\<open>KeyError\<close>). Both are the one failure below, which carries the parameter's name:
  a table is a partial map, and its domain is the set of indices that have a value.
\<close>

datatype error = ParamError string

type_synonym assignment = "atom \<Rightarrow> real"

primrec eval :: "assignment \<Rightarrow> expr \<Rightarrow> real" where
  "eval \<sigma> (Num c) = c"
| "eval \<sigma> (Ref a) = \<sigma> a"
| "eval \<sigma> (Plus a b) = eval \<sigma> a + eval \<sigma> b"
| "eval \<sigma> (Minus a b) = eval \<sigma> a - eval \<sigma> b"
| "eval \<sigma> (Times a b) = eval \<sigma> a * eval \<sigma> b"

primrec holds :: "assignment \<Rightarrow> constraint \<Rightarrow> bool" where
  "holds \<sigma> (GE a b) = (eval \<sigma> b \<le> eval \<sigma> a)"
| "holds \<sigma> (LE a b) = (eval \<sigma> a \<le> eval \<sigma> b)"
| "holds \<sigma> (EQ a b) = (eval \<sigma> a = eval \<sigma> b)"

primrec in_domain :: "domain \<Rightarrow> real \<Rightarrow> bool" where
  "in_domain Reals_domain x = True"
| "in_domain NonNegativeReals_domain x = (0 \<le> x)"
| "in_domain Binary_domain x = (x = 0 \<or> x = 1)"

text \<open>
  The polynomial degree of an expression in the atoms. A constraint a linear solver
  accepts has degree at most one on both sides.
\<close>

primrec degree_of :: "expr \<Rightarrow> nat" where
  "degree_of (Num c) = 0"
| "degree_of (Ref a) = 1"
| "degree_of (Plus a b) = max (degree_of a) (degree_of b)"
| "degree_of (Minus a b) = max (degree_of a) (degree_of b)"
| "degree_of (Times a b) = degree_of a + degree_of b"

primrec constraint_degree :: "constraint \<Rightarrow> nat" where
  "constraint_degree (GE a b) = max (degree_of a) (degree_of b)"
| "constraint_degree (LE a b) = max (degree_of a) (degree_of b)"
| "constraint_degree (EQ a b) = max (degree_of a) (degree_of b)"

subsection \<open>The model object\<close>

text \<open>
  One record for the Pyomo model, as the source has one object \<open>mod\<close>: the index sets
  (ordered, as Pyomo iterates them), the parameter tables as \<open>load_inputs\<close> filled them
  (checking a value against its declared domain is the loader's work, not modelled), the
  option \<open>sell_excess_RA\<close>, the list of cost component names of the enclosing model, and
  one field for each component that \<open>define_components\<close> assigns. The attributes
  \<open>gen_is_variable\<close>, \<open>gen_is_storage\<close>, \<open>gen_tech_sod\<close>, \<open>region_sod\<close>,
  \<open>resource_id_sod\<close> and \<open>storage_energy_to_power_ratio\<close> are declared by other modules
  and only read here; they are parameter tables as well.
\<close>

record model =
  GENERATION_PROJECTS :: "gen list"
  PERIODS :: "period list"
  MONTHS :: "month list"
  HOURS :: "hour list"
  sell_excess_RA :: string
  gen_is_variable :: "gen \<rightharpoonup> bool"
  gen_is_storage :: "gen \<rightharpoonup> bool"
  gen_tech_sod :: "gen \<rightharpoonup> tech"
  region_sod :: "gen \<rightharpoonup> region"
  resource_id_sod :: "gen \<rightharpoonup> resource_id"
  storage_energy_to_power_ratio :: "gen \<rightharpoonup> real"
  gen_is_ra_eligible :: "gen \<rightharpoonup> bool"
  ra_sod_requirement :: "period \<times> month \<times> hour \<rightharpoonup> real"
  ra_sod_cost :: "period \<times> month \<rightharpoonup> real"
  ra_sod_resell_value :: "period \<times> month \<rightharpoonup> real"
  exceedance_vals :: "period \<times> month \<times> hour \<times> tech \<times> region \<rightharpoonup> real"
  nqc_vals :: "period \<times> month \<times> resource_id \<rightharpoonup> real"
  storage_adders :: "period \<times> month \<rightharpoonup> real"
  Cost_Components_Per_Period :: "string list"
  HourlyQC :: "((gen \<times> period \<times> month \<times> hour) \<times> expr) list"
  EnergyNQC :: "((period \<times> month \<times> hour) \<times> expr) list"
  StorageQC :: "((period \<times> month) \<times> expr) list"
  StorageEnergySOD :: "((period \<times> month) \<times> expr) list"
  StorageDischarge :: "((period \<times> month \<times> hour) \<times> domain) list"
  StorageCharge :: "((period \<times> month \<times> hour) \<times> domain) list"
  StorageState :: "((period \<times> month \<times> hour) \<times> domain) list"
  NewRA :: "((period \<times> month) \<times> domain) list"
  TotalMonthlyDischarge :: "((period \<times> month) \<times> expr) list"
  TotalMonthlyCharge :: "((period \<times> month) \<times> expr) list"
  RA_Position_Constraint :: "((period \<times> month \<times> hour) \<times> constraint) list"
  Storage_Energy_Constraint :: "((period \<times> month) \<times> constraint) list"
  Storage_Charge_Discharge :: "((period \<times> month) \<times> constraint) list"
  Hourly_Discharge_Constriant :: "((period \<times> month \<times> hour) \<times> constraint) list"
  Hourly_Charge_Constriant :: "((period \<times> month \<times> hour) \<times> constraint) list"
  Charging_State_Constraint :: "((period \<times> month \<times> hour) \<times> constraint) list"
  Discharging_State_Constraint :: "((period \<times> month \<times> hour) \<times> constraint) list"
  MonthlyRAOpenPositionCost :: "((period \<times> month) \<times> expr) list"
  RAOpenPositionCost :: "(period \<times> expr) list"

subsection \<open>Failure and parameter lookup\<close>

definition rbind :: "error + 'a \<Rightarrow> ('a \<Rightarrow> error + 'b) \<Rightarrow> error + 'b" where
  "rbind x f = (case x of Inl e \<Rightarrow> Inl e | Inr v \<Rightarrow> f v)"

text \<open>A parameter declared without a default: reading a missing entry raises.\<close>

definition param :: "string \<Rightarrow> ('k \<rightharpoonup> 'v) \<Rightarrow> 'k \<Rightarrow> error + 'v" where
  "param name tbl k = (case tbl k of None \<Rightarrow> Inl (ParamError name) | Some v \<Rightarrow> Inr v)"

text \<open>A parameter declared with \<open>default = d\<close>: a missing entry reads as \<open>d\<close>.\<close>

definition param_default :: "'v \<Rightarrow> ('k \<rightharpoonup> 'v) \<Rightarrow> 'k \<Rightarrow> 'v" where
  "param_default d tbl k = (case tbl k of None \<Rightarrow> d | Some v \<Rightarrow> v)"

subsection \<open>Capacity accounting\<close>

text \<open>
  \<open>CalculateHourlyQualifyingCapacities(m, g, p, mo, h)\<close>, lines 80 to 93. The lookups
  happen in the order Python evaluates them, and only on the branch taken.
\<close>

definition CalculateHourlyQualifyingCapacities ::
  "model \<Rightarrow> gen \<Rightarrow> period \<Rightarrow> month \<Rightarrow> hour \<Rightarrow> error + expr" where
  "CalculateHourlyQualifyingCapacities m g p mo h =
     rbind (param ''gen_is_ra_eligible'' (gen_is_ra_eligible m) g) (\<lambda>eligible.
       if eligible then
         rbind (param ''gen_is_variable'' (gen_is_variable m) g) (\<lambda>variable.
           if variable then
             rbind (param ''gen_tech_sod'' (gen_tech_sod m) g) (\<lambda>t.
             rbind (param ''region_sod'' (region_sod m) g) (\<lambda>r.
             rbind (param ''exceedance_vals'' (exceedance_vals m) (p, mo, h, t, r)) (\<lambda>x.
               Inr (Times (Num x) (Ref (GenCapacity_at g p))))))
           else
             rbind (param ''gen_tech_sod'' (gen_tech_sod m) g) (\<lambda>t.
               if t = ''Small Hydro'' then
                 rbind (param ''resource_id_sod'' (resource_id_sod m) g) (\<lambda>rid.
                 rbind (param ''nqc_vals'' (nqc_vals m) (p, mo, rid)) (\<lambda>v.
                   Inr (Num v)))
               else Inr (Ref (GenCapacity_at g p))))
       else Inr (Num 0))"

text \<open>
  \<open>CalculateEnergyNQC(m, p, mo, h)\<close>, lines 100 to 111: the loop over
  \<open>GENERATION_PROJECTS\<close> with the accumulator \<open>system_qc\<close>. The entry
  \<open>m.HourlyQC[g, p, mo, h]\<close> is the expression the rule above built at that index.
\<close>

fun EnergyNQC_loop ::
  "model \<Rightarrow> period \<Rightarrow> month \<Rightarrow> hour \<Rightarrow> gen list \<Rightarrow> expr \<Rightarrow> error + expr" where
  "EnergyNQC_loop m p mo h [] system_qc = Inr system_qc"
| "EnergyNQC_loop m p mo h (g # gs) system_qc =
     rbind (param ''gen_is_storage'' (gen_is_storage m) g) (\<lambda>storage.
       if storage then EnergyNQC_loop m p mo h gs system_qc
       else rbind (CalculateHourlyQualifyingCapacities m g p mo h) (\<lambda>qc.
              EnergyNQC_loop m p mo h gs (Plus system_qc qc)))"

definition CalculateEnergyNQC :: "model \<Rightarrow> period \<Rightarrow> month \<Rightarrow> hour \<Rightarrow> error + expr" where
  "CalculateEnergyNQC m p mo h = EnergyNQC_loop m p mo h (GENERATION_PROJECTS m) (Num 0)"

subsection \<open>Storage aggregation\<close>

text \<open>\<open>CalculateStorageCapacity(m, p, mo)\<close>, lines 118 to 131.\<close>

fun StorageCapacity_loop :: "model \<Rightarrow> period \<Rightarrow> gen list \<Rightarrow> expr \<Rightarrow> error + expr" where
  "StorageCapacity_loop m p [] storage_cap = Inr storage_cap"
| "StorageCapacity_loop m p (g # gs) storage_cap =
     rbind (param ''gen_is_storage'' (gen_is_storage m) g) (\<lambda>storage.
       if storage then StorageCapacity_loop m p gs (Plus storage_cap (Ref (GenCapacity_at g p)))
       else StorageCapacity_loop m p gs storage_cap)"

definition CalculateStorageCapacity :: "model \<Rightarrow> period \<Rightarrow> month \<Rightarrow> error + expr" where
  "CalculateStorageCapacity m p mo =
     rbind (StorageCapacity_loop m p (GENERATION_PROJECTS m) (Num 0)) (\<lambda>storage_cap.
       Inr (Plus storage_cap (Num (param_default 0 (storage_adders m) (p, mo)))))"

text \<open>
  \<open>CalculateStorageEnergy(m, p, mo)\<close>, lines 137 to 150. The product
  \<open>m.storage_adders[p, mo] * 4\<close> is a product of two numbers, computed when the rule runs.
\<close>

fun StorageEnergy_loop :: "model \<Rightarrow> period \<Rightarrow> gen list \<Rightarrow> expr \<Rightarrow> error + expr" where
  "StorageEnergy_loop m p [] storage_energy = Inr storage_energy"
| "StorageEnergy_loop m p (g # gs) storage_energy =
     rbind (param ''gen_is_storage'' (gen_is_storage m) g) (\<lambda>storage.
       if storage then
         rbind (param ''storage_energy_to_power_ratio'' (storage_energy_to_power_ratio m) g)
           (\<lambda>ratio. StorageEnergy_loop m p gs
              (Plus storage_energy (Times (Ref (GenCapacity_at g p)) (Num ratio))))
       else StorageEnergy_loop m p gs storage_energy)"

definition CalculateStorageEnergy :: "model \<Rightarrow> period \<Rightarrow> month \<Rightarrow> error + expr" where
  "CalculateStorageEnergy m p mo =
     rbind (StorageEnergy_loop m p (GENERATION_PROJECTS m) (Num 0)) (\<lambda>storage_energy.
       Inr (Plus storage_energy (Num (param_default 0 (storage_adders m) (p, mo) * 4))))"

subsection \<open>Index sets and component construction\<close>

definition idx_pm :: "model \<Rightarrow> (period \<times> month) list" where
  "idx_pm m = List.product (PERIODS m) (MONTHS m)"

definition idx_pmh :: "model \<Rightarrow> (period \<times> month \<times> hour) list" where
  "idx_pmh m = List.product (PERIODS m) (List.product (MONTHS m) (HOURS m))"

definition idx_gpmh :: "model \<Rightarrow> (gen \<times> period \<times> month \<times> hour) list" where
  "idx_gpmh m = List.product (GENERATION_PROJECTS m) (idx_pmh m)"

text \<open>
  Constructing an indexed component runs its rule at every index, in order; the first
  rule that raises aborts the construction.
\<close>

fun construct :: "'i list \<Rightarrow> ('i \<Rightarrow> error + 'a) \<Rightarrow> error + ('i \<times> 'a) list" where
  "construct [] rule = Inr []"
| "construct (i # is) rule =
     rbind (rule i) (\<lambda>a. rbind (construct is rule) (\<lambda>rest. Inr ((i, a) # rest)))"

text \<open>An indexed variable: every index gets the declared domain.\<close>

definition Var :: "'i list \<Rightarrow> domain \<Rightarrow> ('i \<times> domain) list" where
  "Var idx d = map (\<lambda>i. (i, d)) idx"

text \<open>Python's \<open>sum\<close> over a sequence of expressions: it starts from \<open>0\<close> and adds on the right.\<close>

definition py_sum :: "expr list \<Rightarrow> expr" where
  "py_sum es = foldl Plus (Num 0) es"

subsection \<open>Position optimizer: totals and constraints\<close>

text \<open>The rules of lines 175 to 190.\<close>

definition TotalMonthlyDischarge_rule :: "model \<Rightarrow> period \<Rightarrow> month \<Rightarrow> expr" where
  "TotalMonthlyDischarge_rule m p mo =
     py_sum (map (\<lambda>h. Ref (StorageDischarge_at p mo h)) (HOURS m))"

definition TotalMonthlyCharge_rule :: "model \<Rightarrow> period \<Rightarrow> month \<Rightarrow> expr" where
  "TotalMonthlyCharge_rule m p mo =
     py_sum (map (\<lambda>h. Ref (StorageCharge_at p mo h)) (HOURS m))"

text \<open>Line 197. The left-hand side is read before the right-hand side.\<close>

definition RA_Position_Constraint_rule ::
  "model \<Rightarrow> period \<Rightarrow> month \<Rightarrow> hour \<Rightarrow> error + constraint" where
  "RA_Position_Constraint_rule m p mo h =
     rbind (CalculateEnergyNQC m p mo h) (\<lambda>energy_nqc.
     rbind (param ''ra_sod_requirement'' (ra_sod_requirement m) (p, mo, h)) (\<lambda>requirement.
       Inr (GE (Plus (Plus (Ref (NewRA_at p mo)) (Ref (StorageDischarge_at p mo h))) energy_nqc)
               (Plus (Num requirement) (Ref (StorageCharge_at p mo h))))))"

text \<open>Line 204.\<close>

definition Storage_Energy_Constraint_rule :: "model \<Rightarrow> period \<Rightarrow> month \<Rightarrow> error + constraint" where
  "Storage_Energy_Constraint_rule m p mo =
     rbind (CalculateStorageEnergy m p mo) (\<lambda>storage_energy.
       Inr (LE (TotalMonthlyDischarge_rule m p mo) storage_energy))"

text \<open>Line 211.\<close>

definition Storage_Charge_Discharge_rule :: "model \<Rightarrow> period \<Rightarrow> month \<Rightarrow> constraint" where
  "Storage_Charge_Discharge_rule m p mo =
     EQ (TotalMonthlyDischarge_rule m p mo) (Times (TotalMonthlyCharge_rule m p mo) (Num 0.8))"

text \<open>Lines 219 and 226.\<close>

definition Hourly_Discharge_Constriant_rule ::
  "model \<Rightarrow> period \<Rightarrow> month \<Rightarrow> hour \<Rightarrow> error + constraint" where
  "Hourly_Discharge_Constriant_rule m p mo h =
     rbind (CalculateStorageCapacity m p mo) (\<lambda>storage_qc.
       Inr (LE (Ref (StorageDischarge_at p mo h)) storage_qc))"

definition Hourly_Charge_Constriant_rule ::
  "model \<Rightarrow> period \<Rightarrow> month \<Rightarrow> hour \<Rightarrow> error + constraint" where
  "Hourly_Charge_Constriant_rule m p mo h =
     rbind (CalculateStorageCapacity m p mo) (\<lambda>storage_qc.
       Inr (LE (Ref (StorageCharge_at p mo h)) storage_qc))"

text \<open>Lines 234 and 242: the two state constraints, as the source writes them.\<close>

definition Charging_State_Constraint_rule :: "period \<Rightarrow> month \<Rightarrow> hour \<Rightarrow> constraint" where
  "Charging_State_Constraint_rule p mo h =
     EQ (Times (Ref (StorageState_at p mo h)) (Ref (StorageCharge_at p mo h))) (Num 0)"

definition Discharging_State_Constraint_rule :: "period \<Rightarrow> month \<Rightarrow> hour \<Rightarrow> constraint" where
  "Discharging_State_Constraint_rule p mo h =
     EQ (Times (Minus (Num 1) (Ref (StorageState_at p mo h))) (Ref (StorageDischarge_at p mo h)))
        (Num 0)"

subsection \<open>Cost rollup\<close>

text \<open>Line 249.\<close>

definition MonthlyRAOpenPositionCost_rule :: "model \<Rightarrow> period \<Rightarrow> month \<Rightarrow> error + expr" where
  "MonthlyRAOpenPositionCost_rule m p mo =
     rbind (param ''ra_sod_cost'' (ra_sod_cost m) (p, mo)) (\<lambda>cost.
       Inr (Times (Times (Ref (NewRA_at p mo)) (Num 1000)) (Num cost)))"

text \<open>
  Lines 255 to 257: \<open>sum\<close> over the months, reading one monthly cost expression after the
  other.
\<close>

fun RAOpenPositionCost_loop :: "model \<Rightarrow> period \<Rightarrow> month list \<Rightarrow> expr \<Rightarrow> error + expr" where
  "RAOpenPositionCost_loop m p [] acc = Inr acc"
| "RAOpenPositionCost_loop m p (mo # mos) acc =
     rbind (MonthlyRAOpenPositionCost_rule m p mo) (\<lambda>cost.
       RAOpenPositionCost_loop m p mos (Plus acc cost))"

definition RAOpenPositionCost_rule :: "model \<Rightarrow> period \<Rightarrow> error + expr" where
  "RAOpenPositionCost_rule m p = RAOpenPositionCost_loop m p (MONTHS m) (Num 0)"

subsection \<open>The build\<close>

text \<open>
  \<open>define_components(mod)\<close>: the components in the order the source declares them,
  which is the order Pyomo constructs them in, and the name appended to
  \<open>Cost_Components_Per_Period\<close> (line 261).
\<close>

definition define_components :: "model \<Rightarrow> error + model" where
  "define_components m =
     rbind (construct (idx_gpmh m)
             (\<lambda>(g, p, mo, h). CalculateHourlyQualifyingCapacities m g p mo h)) (\<lambda>hourly_qc.
     rbind (construct (idx_pmh m) (\<lambda>(p, mo, h). CalculateEnergyNQC m p mo h)) (\<lambda>energy_nqc.
     rbind (construct (idx_pm m) (\<lambda>(p, mo). CalculateStorageCapacity m p mo)) (\<lambda>storage_qc.
     rbind (construct (idx_pm m) (\<lambda>(p, mo). CalculateStorageEnergy m p mo)) (\<lambda>storage_energy.
     rbind (construct (idx_pmh m)
             (\<lambda>(p, mo, h). RA_Position_Constraint_rule m p mo h)) (\<lambda>ra_position.
     rbind (construct (idx_pm m)
             (\<lambda>(p, mo). Storage_Energy_Constraint_rule m p mo)) (\<lambda>storage_energy_con.
     rbind (construct (idx_pmh m)
             (\<lambda>(p, mo, h). Hourly_Discharge_Constriant_rule m p mo h)) (\<lambda>hourly_discharge.
     rbind (construct (idx_pmh m)
             (\<lambda>(p, mo, h). Hourly_Charge_Constriant_rule m p mo h)) (\<lambda>hourly_charge.
     rbind (construct (idx_pm m)
             (\<lambda>(p, mo). MonthlyRAOpenPositionCost_rule m p mo)) (\<lambda>monthly_cost.
     rbind (construct (PERIODS m) (\<lambda>p. RAOpenPositionCost_rule m p)) (\<lambda>period_cost.
       Inr (m\<lparr>
         HourlyQC := hourly_qc,
         EnergyNQC := energy_nqc,
         StorageQC := storage_qc,
         StorageEnergySOD := storage_energy,
         StorageDischarge := Var (idx_pmh m) NonNegativeReals_domain,
         StorageCharge := Var (idx_pmh m) NonNegativeReals_domain,
         StorageState := Var (idx_pmh m) Binary_domain,
         NewRA := Var (idx_pm m)
           (if sell_excess_RA m = ''sell'' then Reals_domain else NonNegativeReals_domain),
         TotalMonthlyDischarge :=
           map (\<lambda>(p, mo). ((p, mo), TotalMonthlyDischarge_rule m p mo)) (idx_pm m),
         TotalMonthlyCharge :=
           map (\<lambda>(p, mo). ((p, mo), TotalMonthlyCharge_rule m p mo)) (idx_pm m),
         RA_Position_Constraint := ra_position,
         Storage_Energy_Constraint := storage_energy_con,
         Storage_Charge_Discharge :=
           map (\<lambda>(p, mo). ((p, mo), Storage_Charge_Discharge_rule m p mo)) (idx_pm m),
         Hourly_Discharge_Constriant := hourly_discharge,
         Hourly_Charge_Constriant := hourly_charge,
         Charging_State_Constraint :=
           map (\<lambda>(p, mo, h). ((p, mo, h), Charging_State_Constraint_rule p mo h)) (idx_pmh m),
         Discharging_State_Constraint :=
           map (\<lambda>(p, mo, h). ((p, mo, h), Discharging_State_Constraint_rule p mo h)) (idx_pmh m),
         MonthlyRAOpenPositionCost := monthly_cost,
         RAOpenPositionCost := period_cost,
         Cost_Components_Per_Period := Cost_Components_Per_Period m @ [''RAOpenPositionCost'']
       \<rparr>)))))))))))"

subsection \<open>What the solver may return\<close>

text \<open>
  An assignment satisfies a built model when every constraint of every constraint
  component holds and every variable lies in its declared domain.
\<close>

definition constraints_hold :: "assignment \<Rightarrow> ('i \<times> constraint) list \<Rightarrow> bool" where
  "constraints_hold \<sigma> cs = list_all (\<lambda>(i, c). holds \<sigma> c) cs"

definition satisfies :: "model \<Rightarrow> assignment \<Rightarrow> bool" where
  "satisfies M \<sigma> \<longleftrightarrow>
     constraints_hold \<sigma> (RA_Position_Constraint M) \<and>
     constraints_hold \<sigma> (Storage_Energy_Constraint M) \<and>
     constraints_hold \<sigma> (Storage_Charge_Discharge M) \<and>
     constraints_hold \<sigma> (Hourly_Discharge_Constriant M) \<and>
     constraints_hold \<sigma> (Hourly_Charge_Constriant M) \<and>
     constraints_hold \<sigma> (Charging_State_Constraint M) \<and>
     constraints_hold \<sigma> (Discharging_State_Constraint M) \<and>
     list_all (\<lambda>((p, mo, h), d). in_domain d (\<sigma> (StorageDischarge_at p mo h))) (StorageDischarge M) \<and>
     list_all (\<lambda>((p, mo, h), d). in_domain d (\<sigma> (StorageCharge_at p mo h))) (StorageCharge M) \<and>
     list_all (\<lambda>((p, mo, h), d). in_domain d (\<sigma> (StorageState_at p mo h))) (StorageState M) \<and>
     list_all (\<lambda>((p, mo), d). in_domain d (\<sigma> (NewRA_at p mo))) (NewRA M)"

subsection \<open>The reformulation the specification asks for\<close>

text \<open>
  The specification describes a linear replacement for the two state constraints, with
  the aggregate storage power \<open>StorageQC[p, mo]\<close> as the bound. These two definitions
  follow the specification's words, not the source; they are only compared with what the
  source builds.
\<close>

definition bigM_charge_constraint :: "expr \<Rightarrow> period \<Rightarrow> month \<Rightarrow> hour \<Rightarrow> constraint" where
  "bigM_charge_constraint M p mo h =
     LE (Ref (StorageCharge_at p mo h)) (Times M (Minus (Num 1) (Ref (StorageState_at p mo h))))"

definition bigM_discharge_constraint :: "expr \<Rightarrow> period \<Rightarrow> month \<Rightarrow> hour \<Rightarrow> constraint" where
  "bigM_discharge_constraint M p mo h =
     LE (Ref (StorageDischarge_at p mo h)) (Times M (Ref (StorageState_at p mo h)))"

subsection \<open>Reading values off a built model\<close>



subsection \<open>A small portfolio\<close>

text \<open>
  One period, one month and a two-hour day; a solar plant, a small hydro plant, a
  geothermal plant, a battery and a wind plant that is not eligible. The assignment
  charges the battery in hour 1 and discharges it in hour 2.
\<close>

definition demo_model :: model where
  "demo_model = \<lparr>
     GENERATION_PROJECTS = [''solar'', ''hydro'', ''geo'', ''battery'', ''retired''],
     PERIODS = [2025],
     MONTHS = [1],
     HOURS = [1, 2],
     sell_excess_RA = ''none'',
     gen_is_variable = map_of [(''solar'', True), (''hydro'', False), (''geo'', False),
       (''battery'', False), (''retired'', True)],
     gen_is_storage = map_of [(''solar'', False), (''hydro'', False), (''geo'', False),
       (''battery'', True), (''retired'', False)],
     gen_tech_sod = map_of [(''solar'', ''Solar''), (''hydro'', ''Small Hydro''),
       (''geo'', ''Geothermal''), (''battery'', ''Storage''), (''retired'', ''Wind'')],
     region_sod = map_of [(''solar'', ''CA''), (''hydro'', ''CA''), (''geo'', ''CA''),
       (''battery'', ''CA''), (''retired'', ''CA'')],
     resource_id_sod = map_of [(''hydro'', ''HYDRO_1'')],
     storage_energy_to_power_ratio = map_of [(''battery'', 4)],
     gen_is_ra_eligible = map_of [(''solar'', True), (''hydro'', True), (''geo'', True),
       (''battery'', True), (''retired'', False)],
     ra_sod_requirement = map_of [((2025, 1, 1), 100), ((2025, 1, 2), 140)],
     ra_sod_cost = map_of [((2025, 1), 7)],
     ra_sod_resell_value = Map.empty,
     exceedance_vals = map_of [((2025, 1, 1, ''Solar'', ''CA''), 1/2),
       ((2025, 1, 2, ''Solar'', ''CA''), 1/10), ((2025, 1, 1, ''Wind'', ''CA''), 3/10),
       ((2025, 1, 2, ''Wind'', ''CA''), 2/10)],
     nqc_vals = map_of [((2025, 1, ''HYDRO_1''), 10)],
     storage_adders = map_of [((2025, 1), 5)],
     Cost_Components_Per_Period = [''TotalGenFixedCosts''],
     HourlyQC = [], EnergyNQC = [], StorageQC = [], StorageEnergySOD = [],
     StorageDischarge = [], StorageCharge = [], StorageState = [], NewRA = [],
     TotalMonthlyDischarge = [], TotalMonthlyCharge = [],
     RA_Position_Constraint = [], Storage_Energy_Constraint = [],
     Storage_Charge_Discharge = [], Hourly_Discharge_Constriant = [],
     Hourly_Charge_Constriant = [], Charging_State_Constraint = [],
     Discharging_State_Constraint = [], MonthlyRAOpenPositionCost = [],
     RAOpenPositionCost = []
   \<rparr>"

fun demo_assignment :: assignment where
  "demo_assignment (NewRA_at p mo) = 68"
| "demo_assignment (StorageDischarge_at p mo h) = (if h = 2 then 8 else 0)"
| "demo_assignment (StorageCharge_at p mo h) = (if h = 1 then 10 else 0)"
| "demo_assignment (StorageState_at p mo h) = (if h = 2 then 1 else 0)"
| "demo_assignment (GenCapacity_at g p) =
     (if g = ''solar'' then 40 else if g = ''hydro'' then 12 else if g = ''geo'' then 50
      else if g = ''battery'' then 20 else 30)"

definition demo_built :: model where
  "demo_built = (case define_components demo_model of Inl e \<Rightarrow> demo_model | Inr M \<Rightarrow> M)"

section \<open>Properties\<close>

subsection \<open>Failure, lookup and construction\<close>

lemma rbind_Inl [simp]: "rbind (Inl e) f = Inl e"
  by (simp add: rbind_def)

lemma rbind_Inr [simp]: "rbind (Inr v) f = f v"
  by (simp add: rbind_def)

lemma rbind_eq_Inr: "rbind x f = Inr y \<longleftrightarrow> (\<exists>v. x = Inr v \<and> f v = Inr y)"
  by (cases x) simp_all

lemma map_sum_rbind: "map_sum id f (rbind x g) = rbind x (\<lambda>a. map_sum id f (g a))"
  by (cases x) simp_all

lemma param_eq_Inr [simp]: "param name tbl k = Inr v \<longleftrightarrow> tbl k = Some v"
  by (simp add: param_def split: option.splits)

lemma construct_entry:
  "construct idx rule = Inr tbl \<Longrightarrow> (i, a) \<in> set tbl \<Longrightarrow> i \<in> set idx \<and> rule i = Inr a"
  by (induction idx arbitrary: tbl) (auto simp: rbind_eq_Inr)

lemma construct_lookup:
  "construct idx rule = Inr tbl \<Longrightarrow> i \<in> set idx \<Longrightarrow> \<exists>a. rule i = Inr a \<and> map_of tbl i = Some a \<and> (i, a) \<in> set tbl"
  by (induction idx arbitrary: tbl) (auto simp: rbind_eq_Inr)

lemma in_idx_pm: "(p, mo) \<in> set (idx_pm m) \<longleftrightarrow> p \<in> set (PERIODS m) \<and> mo \<in> set (MONTHS m)"
  by (simp add: idx_pm_def)

lemma in_idx_pmh:
  "(p, mo, h) \<in> set (idx_pmh m) \<longleftrightarrow>
     p \<in> set (PERIODS m) \<and> mo \<in> set (MONTHS m) \<and> h \<in> set (HOURS m)"
  by (simp add: idx_pmh_def)

lemma in_idx_gpmh:
  "(g, p, mo, h) \<in> set (idx_gpmh m) \<longleftrightarrow>
     g \<in> set (GENERATION_PROJECTS m) \<and> p \<in> set (PERIODS m) \<and> mo \<in> set (MONTHS m) \<and>
     h \<in> set (HOURS m)"
  by (simp add: idx_gpmh_def in_idx_pmh)

lemma table3_lookup:
  "(p, mo, h) \<in> set idx \<Longrightarrow>
     map_of (map (\<lambda>(p, mo, h). ((p, mo, h), f p mo h)) idx) (p, mo, h) = Some (f p mo h)"
  by (induction idx) auto

lemma table2_lookup:
  "(p, mo) \<in> set idx \<Longrightarrow>
     map_of (map (\<lambda>(p, mo). ((p, mo), f p mo)) idx) (p, mo) = Some (f p mo)"
  by (induction idx) auto

lemma table3_entry:
  "(p, mo, h) \<in> set idx \<Longrightarrow>
     ((p, mo, h), f p mo h) \<in> set (map (\<lambda>(p, mo, h). ((p, mo, h), f p mo h)) idx)"
  by force

lemma table2_entry:
  "(p, mo) \<in> set idx \<Longrightarrow> ((p, mo), f p mo) \<in> set (map (\<lambda>(p, mo). ((p, mo), f p mo)) idx)"
  by force

lemma constraints_hold_entry:
  "constraints_hold \<sigma> cs \<Longrightarrow> (i, c) \<in> set cs \<Longrightarrow> holds \<sigma> c"
  by (auto simp: constraints_hold_def list_all_iff)

lemma eval_foldl_Plus:
  "eval \<sigma> (foldl Plus acc es) = eval \<sigma> acc + sum_list (map (eval \<sigma>) es)"
  by (induction es arbitrary: acc) simp_all

lemma eval_py_sum: "eval \<sigma> (py_sum es) = sum_list (map (eval \<sigma>) es)"
  by (simp add: py_sum_def eval_foldl_Plus)


subsection \<open>The loops\<close>

text \<open>
  When a loop returns, every lookup it made was defined and the result is the
  accumulator extended, in order, by the terms of the generators it counts.
\<close>

lemma EnergyNQC_loop_Inr:
  "EnergyNQC_loop m p mo h gs acc = Inr e \<Longrightarrow>
     (\<forall>g \<in> set gs. gen_is_storage m g \<noteq> None) \<and>
     (\<forall>g \<in> set gs. gen_is_storage m g = Some False \<longrightarrow>
        (\<exists>q. CalculateHourlyQualifyingCapacities m g p mo h = Inr q)) \<and>
     e = foldl Plus acc
           (map (\<lambda>g. projr (CalculateHourlyQualifyingCapacities m g p mo h))
             (filter (\<lambda>g. gen_is_storage m g = Some False) gs))"
proof (induction gs arbitrary: acc)
  case Nil
  then show ?case by simp
next
  case (Cons g gs)
  from Cons.prems obtain s where s: "gen_is_storage m g = Some s"
    by (auto simp: rbind_eq_Inr)
  show ?case
  proof (cases s)
    case True
    with s Cons.prems have "EnergyNQC_loop m p mo h gs acc = Inr e"
      by (auto simp: rbind_eq_Inr)
    from Cons.IH [OF this] s True show ?thesis by auto
  next
    case False
    with s Cons.prems obtain q where
      q: "CalculateHourlyQualifyingCapacities m g p mo h = Inr q" and
      rest: "EnergyNQC_loop m p mo h gs (Plus acc q) = Inr e"
      by (auto simp: rbind_eq_Inr)
    from Cons.IH [OF rest] s False q show ?thesis by auto
  qed
qed


lemma StorageCapacity_loop_Inr:
  "StorageCapacity_loop m p gs acc = Inr e \<Longrightarrow>
     (\<forall>g \<in> set gs. gen_is_storage m g \<noteq> None) \<and>
     e = foldl Plus acc
           (map (\<lambda>g. Ref (GenCapacity_at g p))
             (filter (\<lambda>g. gen_is_storage m g = Some True) gs))"
proof (induction gs arbitrary: acc)
  case Nil
  then show ?case by simp
next
  case (Cons g gs)
  from Cons.prems obtain s where s: "gen_is_storage m g = Some s"
    by (auto simp: rbind_eq_Inr)
  with Cons.prems have
    "StorageCapacity_loop m p gs (if s then Plus acc (Ref (GenCapacity_at g p)) else acc) = Inr e"
    by (auto simp: rbind_eq_Inr)
  from Cons.IH [OF this] s show ?case by auto
qed

lemma StorageEnergy_loop_Inr:
  "StorageEnergy_loop m p gs acc = Inr e \<Longrightarrow>
     (\<forall>g \<in> set gs. gen_is_storage m g \<noteq> None) \<and>
     (\<forall>g \<in> set gs. gen_is_storage m g = Some True \<longrightarrow>
        storage_energy_to_power_ratio m g \<noteq> None) \<and>
     e = foldl Plus acc
           (map (\<lambda>g. Times (Ref (GenCapacity_at g p))
                      (Num (the (storage_energy_to_power_ratio m g))))
             (filter (\<lambda>g. gen_is_storage m g = Some True) gs))"
proof (induction gs arbitrary: acc)
  case Nil
  then show ?case by simp
next
  case (Cons g gs)
  from Cons.prems obtain s where s: "gen_is_storage m g = Some s"
    by (auto simp: rbind_eq_Inr)
  show ?case
  proof (cases s)
    case True
    with s Cons.prems obtain ratio where
      ratio: "storage_energy_to_power_ratio m g = Some ratio" and
      rest: "StorageEnergy_loop m p gs
               (Plus acc (Times (Ref (GenCapacity_at g p)) (Num ratio))) = Inr e"
      by (auto simp: rbind_eq_Inr)
    from Cons.IH [OF rest] s True ratio show ?thesis by auto
  next
    case False
    with s Cons.prems have "StorageEnergy_loop m p gs acc = Inr e"
      by (auto simp: rbind_eq_Inr)
    from Cons.IH [OF this] s False show ?thesis by auto
  qed
qed

lemma RAOpenPositionCost_loop_Inr:
  "RAOpenPositionCost_loop m p mos acc = Inr e \<Longrightarrow>
     (\<forall>mo \<in> set mos. ra_sod_cost m (p, mo) \<noteq> None) \<and>
     e = foldl Plus acc
           (map (\<lambda>mo. Times (Times (Ref (NewRA_at p mo)) (Num 1000))
                       (Num (the (ra_sod_cost m (p, mo))))) mos)"
proof (induction mos arbitrary: acc)
  case Nil
  then show ?case by simp
next
  case (Cons mo mos)
  from Cons.prems obtain cost where
    cost: "ra_sod_cost m (p, mo) = Some cost" and
    rest: "RAOpenPositionCost_loop m p mos
             (Plus acc (Times (Times (Ref (NewRA_at p mo)) (Num 1000)) (Num cost))) = Inr e"
    by (auto simp: rbind_eq_Inr MonthlyRAOpenPositionCost_rule_def)
  from Cons.IH [OF rest] cost show ?case by auto
qed




subsection \<open>What a successful build contains\<close>

lemma define_components_fields:
  assumes "define_components m = Inr M"
  shows "construct (idx_gpmh m) (\<lambda>(g, p, mo, h). CalculateHourlyQualifyingCapacities m g p mo h)
           = Inr (HourlyQC M)"
    and "construct (idx_pmh m) (\<lambda>(p, mo, h). CalculateEnergyNQC m p mo h) = Inr (EnergyNQC M)"
    and "construct (idx_pm m) (\<lambda>(p, mo). CalculateStorageCapacity m p mo) = Inr (StorageQC M)"
    and "construct (idx_pm m) (\<lambda>(p, mo). CalculateStorageEnergy m p mo)
           = Inr (StorageEnergySOD M)"
    and "construct (idx_pmh m) (\<lambda>(p, mo, h). RA_Position_Constraint_rule m p mo h)
           = Inr (RA_Position_Constraint M)"
    and "construct (idx_pm m) (\<lambda>(p, mo). Storage_Energy_Constraint_rule m p mo)
           = Inr (Storage_Energy_Constraint M)"
    and "construct (idx_pmh m) (\<lambda>(p, mo, h). Hourly_Discharge_Constriant_rule m p mo h)
           = Inr (Hourly_Discharge_Constriant M)"
    and "construct (idx_pmh m) (\<lambda>(p, mo, h). Hourly_Charge_Constriant_rule m p mo h)
           = Inr (Hourly_Charge_Constriant M)"
    and "construct (idx_pm m) (\<lambda>(p, mo). MonthlyRAOpenPositionCost_rule m p mo)
           = Inr (MonthlyRAOpenPositionCost M)"
    and "construct (PERIODS m) (\<lambda>p. RAOpenPositionCost_rule m p) = Inr (RAOpenPositionCost M)"
  using assms unfolding define_components_def by (auto simp: rbind_eq_Inr)

lemma define_components_total_fields:
  assumes "define_components m = Inr M"
  shows "StorageDischarge M = Var (idx_pmh m) NonNegativeReals_domain"
    and "StorageCharge M = Var (idx_pmh m) NonNegativeReals_domain"
    and "StorageState M = Var (idx_pmh m) Binary_domain"
    and "NewRA M = Var (idx_pm m)
           (if sell_excess_RA m = ''sell'' then Reals_domain else NonNegativeReals_domain)"
    and "TotalMonthlyDischarge M =
           map (\<lambda>(p, mo). ((p, mo), TotalMonthlyDischarge_rule m p mo)) (idx_pm m)"
    and "TotalMonthlyCharge M =
           map (\<lambda>(p, mo). ((p, mo), TotalMonthlyCharge_rule m p mo)) (idx_pm m)"
    and "Storage_Charge_Discharge M =
           map (\<lambda>(p, mo). ((p, mo), Storage_Charge_Discharge_rule m p mo)) (idx_pm m)"
    and "Charging_State_Constraint M =
           map (\<lambda>(p, mo, h). ((p, mo, h), Charging_State_Constraint_rule p mo h)) (idx_pmh m)"
    and "Discharging_State_Constraint M =
           map (\<lambda>(p, mo, h). ((p, mo, h), Discharging_State_Constraint_rule p mo h)) (idx_pmh m)"
    and "Cost_Components_Per_Period M = Cost_Components_Per_Period m @ [''RAOpenPositionCost'']"
  using assms unfolding define_components_def by (auto simp: rbind_eq_Inr)

text \<open>
  The entries of the two capacity components are the values of their rules, so a
  statement about a rule at an index of the model is a statement about the component.
\<close>

lemma HourlyQC_entry_is_rule:
  assumes "define_components m = Inr M"
    and "g \<in> set (GENERATION_PROJECTS m)"
    and "p \<in> set (PERIODS m)" "mo \<in> set (MONTHS m)" "h \<in> set (HOURS m)"
  shows "map_of (HourlyQC M) (g, p, mo, h) = Some q \<longleftrightarrow>
         CalculateHourlyQualifyingCapacities m g p mo h = Inr q"
proof -
  from assms have "(g, p, mo, h) \<in> set (idx_gpmh m)" by (simp add: in_idx_gpmh)
  from construct_lookup [OF define_components_fields(1) [OF assms(1)] this]
  show ?thesis by auto
qed

lemma EnergyNQC_entry_is_rule:
  assumes "define_components m = Inr M"
    and "p \<in> set (PERIODS m)" "mo \<in> set (MONTHS m)" "h \<in> set (HOURS m)"
  shows "map_of (EnergyNQC M) (p, mo, h) = Some e \<longleftrightarrow> CalculateEnergyNQC m p mo h = Inr e"
proof -
  from assms have "(p, mo, h) \<in> set (idx_pmh m)" by (simp add: in_idx_pmh)
  from construct_lookup [OF define_components_fields(2) [OF assms(1)] this]
  show ?thesis by auto
qed

subsection \<open>The small portfolio, built\<close>

lemmas rule_defs =
  CalculateHourlyQualifyingCapacities_def CalculateEnergyNQC_def CalculateStorageCapacity_def
  CalculateStorageEnergy_def RA_Position_Constraint_rule_def Storage_Energy_Constraint_rule_def
  Storage_Charge_Discharge_rule_def Hourly_Discharge_Constriant_rule_def
  Hourly_Charge_Constriant_rule_def Charging_State_Constraint_rule_def
  Discharging_State_Constraint_rule_def MonthlyRAOpenPositionCost_rule_def
  RAOpenPositionCost_rule_def TotalMonthlyDischarge_rule_def TotalMonthlyCharge_rule_def
  py_sum_def param_def param_default_def idx_pm_def idx_pmh_def idx_gpmh_def Var_def

lemmas demo_eval =
  define_components_def rule_defs demo_model_def

lemma demo_builds: "define_components demo_model = Inr demo_built"
  by (simp add: demo_built_def demo_eval)

lemma demo_satisfies: "satisfies demo_built demo_assignment"
  by (simp add: demo_built_def satisfies_def constraints_hold_def demo_eval)

lemma demo_index:
  "2025 \<in> set (PERIODS demo_model)" "1 \<in> set (MONTHS demo_model)"
  "1 \<in> set (HOURS demo_model)" "2 \<in> set (HOURS demo_model)"
  by (simp_all add: demo_model_def)

lemma demo_projects:
  "GENERATION_PROJECTS demo_model = [''solar'', ''hydro'', ''geo'', ''battery'', ''retired'']"
  "filter (\<lambda>g. gen_is_storage demo_model g = Some False) (GENERATION_PROJECTS demo_model)
     = [''solar'', ''hydro'', ''geo'', ''retired'']"
  "filter (\<lambda>g. gen_is_storage demo_model g = Some True) (GENERATION_PROJECTS demo_model)
     = [''battery'']"
  by (simp_all add: demo_model_def)

lemma demo_HourlyQC:
  "map_of (HourlyQC demo_built) (''solar'', 2025, 1, 1)
     = Some (Times (Num (1/2)) (Ref (GenCapacity_at ''solar'' 2025)))"
  "map_of (HourlyQC demo_built) (''hydro'', 2025, 1, 1) = Some (Num 10)"
  "map_of (HourlyQC demo_built) (''geo'', 2025, 1, 1) = Some (Ref (GenCapacity_at ''geo'' 2025))"
  "map_of (HourlyQC demo_built) (''battery'', 2025, 1, 1)
     = Some (Ref (GenCapacity_at ''battery'' 2025))"
  "map_of (HourlyQC demo_built) (''retired'', 2025, 1, 1) = Some (Num 0)"
  by (simp_all add: demo_built_def demo_eval)

lemma demo_storage:
  "map_of (StorageQC demo_built) (2025, 1)
     = Some (Plus (Plus (Num 0) (Ref (GenCapacity_at ''battery'' 2025))) (Num 5))"
  "map_of (StorageEnergySOD demo_built) (2025, 1)
     = Some (Plus (Plus (Num 0) (Times (Ref (GenCapacity_at ''battery'' 2025)) (Num 4)))
          (Num 20))"
  by (simp_all add: demo_built_def demo_eval)

lemma demo_state_constraints:
  "map_of (Charging_State_Constraint demo_built) (2025, 1, 1)
     = Some (EQ (Times (Ref (StorageState_at 2025 1 1)) (Ref (StorageCharge_at 2025 1 1)))
          (Num 0))"
  "map_of (Discharging_State_Constraint demo_built) (2025, 1, 1)
     = Some (EQ (Times (Minus (Num 1) (Ref (StorageState_at 2025 1 1)))
               (Ref (StorageDischarge_at 2025 1 1))) (Num 0))"
  by (simp_all add: demo_built_def demo_eval)

section \<open>The claims\<close>

subsection \<open>C1: the form of the charge and discharge state constraints\<close>

text \<open>
  C1, as stated, fails. The claim says that the two mutual-exclusivity constraints of
  the constructed model are the linear inequalities \<open>Charge \<le> M \<times> (1 - StorageState)\<close>
  and \<open>Discharge \<le> M \<times> StorageState\<close> with \<open>M = StorageQC[p, mo]\<close>. For the small
  portfolio the build succeeds, and at \<open>(2025, 1, 1)\<close> neither constraint is the
  inequality of the claim: both are the products the source writes on lines 234 and 242.
\<close>

theorem big_M_not_constructed:
  "define_components demo_model = Inr demo_built \<and>
   map_of (StorageQC demo_built) (2025, 1)
     = Some (Plus (Plus (Num 0) (Ref (GenCapacity_at ''battery'' 2025))) (Num 5)) \<and>
   map_of (Charging_State_Constraint demo_built) (2025, 1, 1)
     \<noteq> Some (bigM_charge_constraint
               (Plus (Plus (Num 0) (Ref (GenCapacity_at ''battery'' 2025))) (Num 5)) 2025 1 1) \<and>
   map_of (Discharging_State_Constraint demo_built) (2025, 1, 1)
     \<noteq> Some (bigM_discharge_constraint
               (Plus (Plus (Num 0) (Ref (GenCapacity_at ''battery'' 2025))) (Num 5)) 2025 1 1) \<and>
   map_of (Charging_State_Constraint demo_built) (2025, 1, 1)
     = Some (EQ (Times (Ref (StorageState_at 2025 1 1)) (Ref (StorageCharge_at 2025 1 1)))
          (Num 0)) \<and>
   map_of (Discharging_State_Constraint demo_built) (2025, 1, 1)
     = Some (EQ (Times (Minus (Num 1) (Ref (StorageState_at 2025 1 1)))
               (Ref (StorageDischarge_at 2025 1 1))) (Num 0))"
  by (simp add: demo_builds demo_storage demo_state_constraints bigM_charge_constraint_def
        bigM_discharge_constraint_def)

text \<open>
  C1, amended. For every period, month and hour of a built model, the charging state
  constraint is \<open>StorageState \<times> StorageCharge = 0\<close> and the discharging state constraint
  is \<open>(1 - StorageState) \<times> StorageDischarge = 0\<close>, both of degree two; no linear
  reformulation is part of the constructed model. For an assignment with a binary state
  and with charge and discharge between \<open>0\<close> and \<open>StorageQC[p, mo]\<close>, the two products
  hold exactly when the two inequalities of the specification, with
  \<open>M = StorageQC[p, mo]\<close>, hold.
\<close>

theorem state_constraints_bilinear:
  assumes built: "define_components m = Inr M"
    and idx: "p \<in> set (PERIODS m)" "mo \<in> set (MONTHS m)" "h \<in> set (HOURS m)"
  shows "\<exists>charging discharging storage_qc.
           map_of (Charging_State_Constraint M) (p, mo, h) = Some charging \<and>
           map_of (Discharging_State_Constraint M) (p, mo, h) = Some discharging \<and>
           map_of (StorageQC M) (p, mo) = Some storage_qc \<and>
           charging =
             EQ (Times (Ref (StorageState_at p mo h)) (Ref (StorageCharge_at p mo h))) (Num 0) \<and>
           discharging =
             EQ (Times (Minus (Num 1) (Ref (StorageState_at p mo h)))
                   (Ref (StorageDischarge_at p mo h))) (Num 0) \<and>
           constraint_degree charging = 2 \<and> constraint_degree discharging = 2 \<and>
           (\<forall>\<sigma>. in_domain Binary_domain (\<sigma> (StorageState_at p mo h)) \<and>
                0 \<le> \<sigma> (StorageCharge_at p mo h) \<and>
                0 \<le> \<sigma> (StorageDischarge_at p mo h) \<and>
                \<sigma> (StorageCharge_at p mo h) \<le> eval \<sigma> storage_qc \<and>
                \<sigma> (StorageDischarge_at p mo h) \<le> eval \<sigma> storage_qc \<longrightarrow>
                (holds \<sigma> charging \<and> holds \<sigma> discharging \<longleftrightarrow>
                 holds \<sigma> (bigM_charge_constraint storage_qc p mo h) \<and>
                 holds \<sigma> (bigM_discharge_constraint storage_qc p mo h)))"
proof -
  from idx have i: "(p, mo, h) \<in> set (idx_pmh m)" by (simp add: in_idx_pmh)
  from idx have j: "(p, mo) \<in> set (idx_pm m)" by (simp add: in_idx_pm)
  have c: "map_of (Charging_State_Constraint M) (p, mo, h)
             = Some (Charging_State_Constraint_rule p mo h)"
    unfolding define_components_total_fields(8) [OF built] using i by (rule table3_lookup)
  have d: "map_of (Discharging_State_Constraint M) (p, mo, h)
             = Some (Discharging_State_Constraint_rule p mo h)"
    unfolding define_components_total_fields(9) [OF built] using i by (rule table3_lookup)
  from construct_lookup [OF define_components_fields(3) [OF built] j]
  obtain qc where qc: "map_of (StorageQC M) (p, mo) = Some qc" by auto
  have equiv: "holds \<sigma> (Charging_State_Constraint_rule p mo h) \<and>
               holds \<sigma> (Discharging_State_Constraint_rule p mo h) \<longleftrightarrow>
               holds \<sigma> (bigM_charge_constraint qc p mo h) \<and>
               holds \<sigma> (bigM_discharge_constraint qc p mo h)"
    if "in_domain Binary_domain (\<sigma> (StorageState_at p mo h))"
      and "0 \<le> \<sigma> (StorageCharge_at p mo h)" and "0 \<le> \<sigma> (StorageDischarge_at p mo h)"
      and "\<sigma> (StorageCharge_at p mo h) \<le> eval \<sigma> qc"
      and "\<sigma> (StorageDischarge_at p mo h) \<le> eval \<sigma> qc" for \<sigma>
    using that
    by (auto simp: Charging_State_Constraint_rule_def Discharging_State_Constraint_rule_def
          bigM_charge_constraint_def bigM_discharge_constraint_def)
  from c d qc equiv show ?thesis
    by (simp add: Charging_State_Constraint_rule_def Discharging_State_Constraint_rule_def)
qed

theorem state_constraints_bilinear_witness:
  "define_components demo_model = Inr demo_built \<and>
   2025 \<in> set (PERIODS demo_model) \<and> 1 \<in> set (MONTHS demo_model) \<and>
   1 \<in> set (HOURS demo_model) \<and>
   in_domain Binary_domain (demo_assignment (StorageState_at 2025 1 1)) \<and>
   0 \<le> demo_assignment (StorageCharge_at 2025 1 1) \<and>
   0 \<le> demo_assignment (StorageDischarge_at 2025 1 1) \<and>
   demo_assignment (StorageCharge_at 2025 1 1)
     \<le> eval demo_assignment (Plus (Plus (Num 0) (Ref (GenCapacity_at ''battery'' 2025))) (Num 5)) \<and>
   demo_assignment (StorageDischarge_at 2025 1 1)
     \<le> eval demo_assignment (Plus (Plus (Num 0) (Ref (GenCapacity_at ''battery'' 2025))) (Num 5)) \<and>
   holds demo_assignment (Charging_State_Constraint_rule 2025 1 1) \<and>
   holds demo_assignment (Discharging_State_Constraint_rule 2025 1 1) \<and>
   holds demo_assignment (bigM_charge_constraint
     (Plus (Plus (Num 0) (Ref (GenCapacity_at ''battery'' 2025))) (Num 5)) 2025 1 1) \<and>
   holds demo_assignment (bigM_discharge_constraint
     (Plus (Plus (Num 0) (Ref (GenCapacity_at ''battery'' 2025))) (Num 5)) 2025 1 1)"
proof -
  let ?qc = "Plus (Plus (Num 0) (Ref (GenCapacity_at ''battery'' 2025))) (Num 5)"
  have side: "in_domain Binary_domain (demo_assignment (StorageState_at 2025 1 1)) \<and>
    0 \<le> demo_assignment (StorageCharge_at 2025 1 1) \<and>
    0 \<le> demo_assignment (StorageDischarge_at 2025 1 1) \<and>
    demo_assignment (StorageCharge_at 2025 1 1) \<le> eval demo_assignment ?qc \<and>
    demo_assignment (StorageDischarge_at 2025 1 1) \<le> eval demo_assignment ?qc"
    by simp
  have bilinear: "holds demo_assignment (Charging_State_Constraint_rule 2025 1 1) \<and>
    holds demo_assignment (Discharging_State_Constraint_rule 2025 1 1)"
    by (simp add: Charging_State_Constraint_rule_def Discharging_State_Constraint_rule_def)
  from state_constraints_bilinear [OF demo_builds demo_index(1) demo_index(2) demo_index(3)]
  obtain charging discharging storage_qc where
    c: "map_of (Charging_State_Constraint demo_built) (2025, 1, 1) = Some charging" and
    d: "map_of (Discharging_State_Constraint demo_built) (2025, 1, 1) = Some discharging" and
    q: "map_of (StorageQC demo_built) (2025, 1) = Some storage_qc" and
    c_eq: "charging =
      EQ (Times (Ref (StorageState_at 2025 1 1)) (Ref (StorageCharge_at 2025 1 1))) (Num 0)" and
    d_eq: "discharging =
      EQ (Times (Minus (Num 1) (Ref (StorageState_at 2025 1 1)))
            (Ref (StorageDischarge_at 2025 1 1))) (Num 0)" and
    equiv: "\<forall>\<sigma>. in_domain Binary_domain (\<sigma> (StorageState_at 2025 1 1)) \<and>
      0 \<le> \<sigma> (StorageCharge_at 2025 1 1) \<and> 0 \<le> \<sigma> (StorageDischarge_at 2025 1 1) \<and>
      \<sigma> (StorageCharge_at 2025 1 1) \<le> eval \<sigma> storage_qc \<and>
      \<sigma> (StorageDischarge_at 2025 1 1) \<le> eval \<sigma> storage_qc \<longrightarrow>
      (holds \<sigma> charging \<and> holds \<sigma> discharging \<longleftrightarrow>
       holds \<sigma> (bigM_charge_constraint storage_qc 2025 1 1) \<and>
       holds \<sigma> (bigM_discharge_constraint storage_qc 2025 1 1))"
    by blast
  from q demo_storage(1) have qc: "storage_qc = ?qc" by simp
  from c_eq d_eq bilinear have "holds demo_assignment charging \<and> holds demo_assignment discharging"
    by (simp add: Charging_State_Constraint_rule_def Discharging_State_Constraint_rule_def)
  with equiv side qc have "holds demo_assignment (bigM_charge_constraint ?qc 2025 1 1) \<and>
    holds demo_assignment (bigM_discharge_constraint ?qc 2025 1 1)"
    by blast
  with side bilinear demo_builds demo_index show ?thesis by blast
qed

subsection \<open>C2: the position constraint\<close>

text \<open>
  C2. For every period, month and hour of a built model, the entry of
  \<open>RA_Position_Constraint\<close> is the inequality
  \<open>NewRA[p, mo] + StorageDischarge[p, mo, h] + EnergyNQC[p, mo, h] \<ge>
  ra_sod_requirement[p, mo, h] + StorageCharge[p, mo, h]\<close>, and every assignment that
  satisfies the built model satisfies it.
\<close>

theorem RA_position_closed:
  assumes built: "define_components m = Inr M"
    and sat: "satisfies M \<sigma>"
    and idx: "p \<in> set (PERIODS m)" "mo \<in> set (MONTHS m)" "h \<in> set (HOURS m)"
  shows "\<exists>energy_nqc requirement.
           map_of (EnergyNQC M) (p, mo, h) = Some energy_nqc \<and>
           ra_sod_requirement m (p, mo, h) = Some requirement \<and>
           map_of (RA_Position_Constraint M) (p, mo, h) =
             Some (GE (Plus (Plus (Ref (NewRA_at p mo)) (Ref (StorageDischarge_at p mo h)))
                         energy_nqc)
                      (Plus (Num requirement) (Ref (StorageCharge_at p mo h)))) \<and>
           requirement + \<sigma> (StorageCharge_at p mo h)
             \<le> \<sigma> (NewRA_at p mo) + \<sigma> (StorageDischarge_at p mo h) + eval \<sigma> energy_nqc"
proof -
  from idx have i: "(p, mo, h) \<in> set (idx_pmh m)" by (simp add: in_idx_pmh)
  from construct_lookup [OF define_components_fields(5) [OF built] i]
  obtain c where c: "RA_Position_Constraint_rule m p mo h = Inr c"
    and c_lookup: "map_of (RA_Position_Constraint M) (p, mo, h) = Some c"
    and c_in: "((p, mo, h), c) \<in> set (RA_Position_Constraint M)"
    by auto
  from c obtain energy_nqc requirement where
    e: "CalculateEnergyNQC m p mo h = Inr energy_nqc" and
    r: "ra_sod_requirement m (p, mo, h) = Some requirement" and
    c_eq: "c = GE (Plus (Plus (Ref (NewRA_at p mo)) (Ref (StorageDischarge_at p mo h))) energy_nqc)
                  (Plus (Num requirement) (Ref (StorageCharge_at p mo h)))"
    by (auto simp: RA_Position_Constraint_rule_def rbind_eq_Inr)
  from construct_lookup [OF define_components_fields(2) [OF built] i] e
  have e_lookup: "map_of (EnergyNQC M) (p, mo, h) = Some energy_nqc" by auto
  from sat have "constraints_hold \<sigma> (RA_Position_Constraint M)"
    by (simp add: satisfies_def)
  from constraints_hold_entry [OF this c_in] have "holds \<sigma> c" .
  with c_eq e_lookup r c_lookup show ?thesis by simp
qed

theorem RA_position_closed_witness:
  "define_components demo_model = Inr demo_built \<and>
   satisfies demo_built demo_assignment \<and>
   2025 \<in> set (PERIODS demo_model) \<and> 1 \<in> set (MONTHS demo_model) \<and>
   2 \<in> set (HOURS demo_model) \<and>
   (\<exists>energy_nqc requirement.
      map_of (EnergyNQC demo_built) (2025, 1, 2) = Some energy_nqc \<and>
      ra_sod_requirement demo_model (2025, 1, 2) = Some requirement \<and>
      map_of (RA_Position_Constraint demo_built) (2025, 1, 2) =
        Some (GE (Plus (Plus (Ref (NewRA_at 2025 1)) (Ref (StorageDischarge_at 2025 1 2)))
                    energy_nqc)
                 (Plus (Num requirement) (Ref (StorageCharge_at 2025 1 2)))) \<and>
      requirement + demo_assignment (StorageCharge_at 2025 1 2)
        \<le> demo_assignment (NewRA_at 2025 1) + demo_assignment (StorageDischarge_at 2025 1 2)
            + eval demo_assignment energy_nqc)"
  using RA_position_closed [OF demo_builds demo_satisfies demo_index(1) demo_index(2) demo_index(4)]
    demo_builds demo_satisfies demo_index
  by blast

subsection \<open>C3: hourly qualifying capacity\<close>

text \<open>
  C3. \<open>CalculateHourlyQualifyingCapacities\<close>, the rule of \<open>HourlyQC\<close>, follows the
  priority order: \<open>0\<close> for a generator that is not eligible, whatever its technology,
  its capacity and the other tables; else the exceedance factor times
  \<open>GenCapacity[g, p]\<close> for variable generation; else the monthly value
  \<open>nqc_vals[p, mo, resource_id(g)]\<close>, the same for every hour, for the technology
  \<open>Small Hydro\<close>; else \<open>GenCapacity[g, p]\<close>.
\<close>

theorem HourlyQC_priority_order:
  "(gen_is_ra_eligible m g = Some False \<longrightarrow>
      CalculateHourlyQualifyingCapacities m g p mo h = Inr (Num 0)) \<and>
   (gen_is_ra_eligible m g = Some True \<and> gen_is_variable m g = Some True \<and>
    gen_tech_sod m g = Some t \<and> region_sod m g = Some r \<and>
    exceedance_vals m (p, mo, h, t, r) = Some x \<longrightarrow>
      CalculateHourlyQualifyingCapacities m g p mo h =
        Inr (Times (Num x) (Ref (GenCapacity_at g p)))) \<and>
   (gen_is_ra_eligible m g = Some True \<and> gen_is_variable m g = Some False \<and>
    gen_tech_sod m g = Some ''Small Hydro'' \<and> resource_id_sod m g = Some rid \<and>
    nqc_vals m (p, mo, rid) = Some v \<longrightarrow>
      CalculateHourlyQualifyingCapacities m g p mo h = Inr (Num v)) \<and>
   (gen_is_ra_eligible m g = Some True \<and> gen_is_variable m g = Some False \<and>
    gen_tech_sod m g = Some t \<and> t \<noteq> ''Small Hydro'' \<longrightarrow>
      CalculateHourlyQualifyingCapacities m g p mo h = Inr (Ref (GenCapacity_at g p)))"
  by (auto simp: CalculateHourlyQualifyingCapacities_def param_def)

theorem HourlyQC_priority_order_witness:
  "gen_is_ra_eligible demo_model ''retired'' = Some False \<and>
   CalculateHourlyQualifyingCapacities demo_model ''retired'' 2025 1 1 = Inr (Num 0) \<and>
   gen_is_ra_eligible demo_model ''solar'' = Some True \<and>
   gen_is_variable demo_model ''solar'' = Some True \<and>
   gen_tech_sod demo_model ''solar'' = Some ''Solar'' \<and>
   region_sod demo_model ''solar'' = Some ''CA'' \<and>
   exceedance_vals demo_model (2025, 1, 1, ''Solar'', ''CA'') = Some (1/2) \<and>
   CalculateHourlyQualifyingCapacities demo_model ''solar'' 2025 1 1
     = Inr (Times (Num (1/2)) (Ref (GenCapacity_at ''solar'' 2025))) \<and>
   gen_is_ra_eligible demo_model ''hydro'' = Some True \<and>
   gen_is_variable demo_model ''hydro'' = Some False \<and>
   gen_tech_sod demo_model ''hydro'' = Some ''Small Hydro'' \<and>
   resource_id_sod demo_model ''hydro'' = Some ''HYDRO_1'' \<and>
   nqc_vals demo_model (2025, 1, ''HYDRO_1'') = Some 10 \<and>
   CalculateHourlyQualifyingCapacities demo_model ''hydro'' 2025 1 1 = Inr (Num 10) \<and>
   gen_is_ra_eligible demo_model ''geo'' = Some True \<and>
   gen_is_variable demo_model ''geo'' = Some False \<and>
   gen_tech_sod demo_model ''geo'' = Some ''Geothermal'' \<and>
   ''Geothermal'' \<noteq> ''Small Hydro'' \<and>
   CalculateHourlyQualifyingCapacities demo_model ''geo'' 2025 1 1
     = Inr (Ref (GenCapacity_at ''geo'' 2025))"
proof -
  have retired: "gen_is_ra_eligible demo_model ''retired'' = Some False"
    by (simp add: demo_model_def)
  have solar: "gen_is_ra_eligible demo_model ''solar'' = Some True \<and>
    gen_is_variable demo_model ''solar'' = Some True \<and>
    gen_tech_sod demo_model ''solar'' = Some ''Solar'' \<and>
    region_sod demo_model ''solar'' = Some ''CA'' \<and>
    exceedance_vals demo_model (2025, 1, 1, ''Solar'', ''CA'') = Some (1/2)"
    by (simp add: demo_model_def)
  have hydro: "gen_is_ra_eligible demo_model ''hydro'' = Some True \<and>
    gen_is_variable demo_model ''hydro'' = Some False \<and>
    gen_tech_sod demo_model ''hydro'' = Some ''Small Hydro'' \<and>
    resource_id_sod demo_model ''hydro'' = Some ''HYDRO_1'' \<and>
    nqc_vals demo_model (2025, 1, ''HYDRO_1'') = Some 10"
    by (simp add: demo_model_def)
  have geo: "gen_is_ra_eligible demo_model ''geo'' = Some True \<and>
    gen_is_variable demo_model ''geo'' = Some False \<and>
    gen_tech_sod demo_model ''geo'' = Some ''Geothermal'' \<and>
    ''Geothermal'' \<noteq> ''Small Hydro''"
    by (simp add: demo_model_def)
  note order = HourlyQC_priority_order [where m = demo_model and p = 2025 and mo = 1 and h = 1]
  from order [of "''retired''"] retired
  have 1: "CalculateHourlyQualifyingCapacities demo_model ''retired'' 2025 1 1 = Inr (Num 0)"
    by blast
  from order [of "''solar''" "''Solar''" "''CA''" "1/2"] solar
  have 2: "CalculateHourlyQualifyingCapacities demo_model ''solar'' 2025 1 1
     = Inr (Times (Num (1/2)) (Ref (GenCapacity_at ''solar'' 2025)))"
    by blast
  from order [of "''hydro''" _ _ _ "''HYDRO_1''" 10] hydro
  have 3: "CalculateHourlyQualifyingCapacities demo_model ''hydro'' 2025 1 1 = Inr (Num 10)"
    by blast
  from order [of "''geo''" "''Geothermal''"] geo
  have 4: "CalculateHourlyQualifyingCapacities demo_model ''geo'' 2025 1 1
     = Inr (Ref (GenCapacity_at ''geo'' 2025))"
    by blast
  from retired solar hydro geo 1 2 3 4 show ?thesis by blast
qed

subsection \<open>C4: system qualifying capacity\<close>

text \<open>
  C4. For every period, month and hour of a built model, the value of
  \<open>EnergyNQC[p, mo, h]\<close> is the sum of the values of \<open>HourlyQC[g, p, mo, h]\<close> over the
  generators whose storage flag is false, and over no others: a generator flagged as
  storage adds nothing.
\<close>

theorem EnergyNQC_sums_non_storage:
  assumes built: "define_components m = Inr M"
    and idx: "p \<in> set (PERIODS m)" "mo \<in> set (MONTHS m)" "h \<in> set (HOURS m)"
  shows "\<exists>energy_nqc hourly_qc.
           map_of (EnergyNQC M) (p, mo, h) = Some energy_nqc \<and>
           (\<forall>g \<in> set (GENERATION_PROJECTS m).
              map_of (HourlyQC M) (g, p, mo, h) = Some (hourly_qc g)) \<and>
           (\<forall>\<sigma>. eval \<sigma> energy_nqc =
              (\<Sum>g\<leftarrow>filter (\<lambda>g. gen_is_storage m g = Some False) (GENERATION_PROJECTS m).
                 eval \<sigma> (hourly_qc g)))"
proof -
  let ?q = "\<lambda>g. projr (CalculateHourlyQualifyingCapacities m g p mo h)"
  from idx have i: "(p, mo, h) \<in> set (idx_pmh m)" by (simp add: in_idx_pmh)
  from construct_lookup [OF define_components_fields(2) [OF built] i]
  obtain e where e: "CalculateEnergyNQC m p mo h = Inr e"
    and e_lookup: "map_of (EnergyNQC M) (p, mo, h) = Some e"
    by auto
  have hq: "map_of (HourlyQC M) (g, p, mo, h) = Some (?q g)"
    if "g \<in> set (GENERATION_PROJECTS m)" for g
  proof -
    from that idx have "(g, p, mo, h) \<in> set (idx_gpmh m)" by (simp add: in_idx_gpmh)
    from construct_lookup [OF define_components_fields(1) [OF built] this]
    show ?thesis by auto
  qed
  from e have "e = foldl Plus (Num 0)
      (map ?q (filter (\<lambda>g. gen_is_storage m g = Some False) (GENERATION_PROJECTS m)))"
    unfolding CalculateEnergyNQC_def by (blast dest: EnergyNQC_loop_Inr)
  then have "eval \<sigma> e =
      (\<Sum>g\<leftarrow>filter (\<lambda>g. gen_is_storage m g = Some False) (GENERATION_PROJECTS m).
         eval \<sigma> (?q g))" for \<sigma>
    by (simp add: eval_foldl_Plus comp_def)
  then have val: "\<forall>\<sigma>. eval \<sigma> e =
      (\<Sum>g\<leftarrow>filter (\<lambda>g. gen_is_storage m g = Some False) (GENERATION_PROJECTS m).
         eval \<sigma> (?q g))"
    by blast
  show ?thesis
  proof (intro exI conjI)
    show "map_of (EnergyNQC M) (p, mo, h) = Some e" by (rule e_lookup)
    show "\<forall>g \<in> set (GENERATION_PROJECTS m). map_of (HourlyQC M) (g, p, mo, h) = Some (?q g)"
      using hq by blast
    show "\<forall>\<sigma>. eval \<sigma> e =
      (\<Sum>g\<leftarrow>filter (\<lambda>g. gen_is_storage m g = Some False) (GENERATION_PROJECTS m).
         eval \<sigma> (?q g))"
      by (rule val)
  qed
qed

theorem EnergyNQC_sums_non_storage_witness:
  "define_components demo_model = Inr demo_built \<and>
   2025 \<in> set (PERIODS demo_model) \<and> 1 \<in> set (MONTHS demo_model) \<and>
   1 \<in> set (HOURS demo_model) \<and>
   (\<exists>energy_nqc. map_of (EnergyNQC demo_built) (2025, 1, 1) = Some energy_nqc \<and>
      eval demo_assignment energy_nqc = 80)"
proof -
  from EnergyNQC_sums_non_storage [OF demo_builds demo_index(1) demo_index(2) demo_index(3)]
  obtain energy_nqc hourly_qc where
    e: "map_of (EnergyNQC demo_built) (2025, 1, 1) = Some energy_nqc" and
    hq: "\<forall>g \<in> set (GENERATION_PROJECTS demo_model).
           map_of (HourlyQC demo_built) (g, 2025, 1, 1) = Some (hourly_qc g)" and
    val: "\<forall>\<sigma>. eval \<sigma> energy_nqc =
           (\<Sum>g\<leftarrow>filter (\<lambda>g. gen_is_storage demo_model g = Some False)
                 (GENERATION_PROJECTS demo_model). eval \<sigma> (hourly_qc g))"
    by blast
  from hq demo_HourlyQC have
    "hourly_qc ''solar'' = Times (Num (1/2)) (Ref (GenCapacity_at ''solar'' 2025))"
    "hourly_qc ''hydro'' = Num 10"
    "hourly_qc ''geo'' = Ref (GenCapacity_at ''geo'' 2025)"
    "hourly_qc ''retired'' = Num 0"
    by (simp_all add: demo_projects(1))
  with val have "eval demo_assignment energy_nqc = 80"
    by (simp add: demo_projects(2))
  with e demo_builds demo_index show ?thesis by blast
qed

subsection \<open>C5: storage power and energy\<close>

text \<open>
  C5. For every period and month of a built model, \<open>StorageQC[p, mo]\<close> is the sum of
  \<open>GenCapacity[g, p]\<close> over the generators flagged as storage plus
  \<open>storage_adders[p, mo]\<close>, and \<open>StorageEnergySOD[p, mo]\<close> is the sum of
  \<open>GenCapacity[g, p] \<times> storage_energy_to_power_ratio[g]\<close> over the same generators plus
  four times \<open>storage_adders[p, mo]\<close>.
\<close>

theorem storage_aggregates:
  assumes built: "define_components m = Inr M"
    and idx: "p \<in> set (PERIODS m)" "mo \<in> set (MONTHS m)"
  shows "\<exists>storage_qc storage_energy ratio.
           map_of (StorageQC M) (p, mo) = Some storage_qc \<and>
           map_of (StorageEnergySOD M) (p, mo) = Some storage_energy \<and>
           (\<forall>g \<in> set (GENERATION_PROJECTS m).
              gen_is_storage m g = Some True \<longrightarrow>
                storage_energy_to_power_ratio m g = Some (ratio g)) \<and>
           (\<forall>\<sigma>. eval \<sigma> storage_qc =
              (\<Sum>g\<leftarrow>filter (\<lambda>g. gen_is_storage m g = Some True) (GENERATION_PROJECTS m).
                 \<sigma> (GenCapacity_at g p))
              + param_default 0 (storage_adders m) (p, mo)) \<and>
           (\<forall>\<sigma>. eval \<sigma> storage_energy =
              (\<Sum>g\<leftarrow>filter (\<lambda>g. gen_is_storage m g = Some True) (GENERATION_PROJECTS m).
                 \<sigma> (GenCapacity_at g p) * ratio g)
              + 4 * param_default 0 (storage_adders m) (p, mo))"
proof -
  let ?r = "\<lambda>g. the (storage_energy_to_power_ratio m g)"
  from idx have i: "(p, mo) \<in> set (idx_pm m)" by (simp add: in_idx_pm)
  from construct_lookup [OF define_components_fields(3) [OF built] i]
  obtain qc where qc: "CalculateStorageCapacity m p mo = Inr qc"
    and qc_lookup: "map_of (StorageQC M) (p, mo) = Some qc"
    by auto
  from construct_lookup [OF define_components_fields(4) [OF built] i]
  obtain en where en: "CalculateStorageEnergy m p mo = Inr en"
    and en_lookup: "map_of (StorageEnergySOD M) (p, mo) = Some en"
    by auto
  from qc obtain cap where
    cap: "StorageCapacity_loop m p (GENERATION_PROJECTS m) (Num 0) = Inr cap" and
    qc_eq: "qc = Plus cap (Num (param_default 0 (storage_adders m) (p, mo)))"
    by (auto simp: CalculateStorageCapacity_def rbind_eq_Inr)
  from en obtain se where
    se: "StorageEnergy_loop m p (GENERATION_PROJECTS m) (Num 0) = Inr se" and
    en_eq: "en = Plus se (Num (param_default 0 (storage_adders m) (p, mo) * 4))"
    by (auto simp: CalculateStorageEnergy_def rbind_eq_Inr)
  from StorageCapacity_loop_Inr [OF cap] qc_eq
  have qc_val: "eval \<sigma> qc =
      (\<Sum>g\<leftarrow>filter (\<lambda>g. gen_is_storage m g = Some True) (GENERATION_PROJECTS m).
         \<sigma> (GenCapacity_at g p))
      + param_default 0 (storage_adders m) (p, mo)" for \<sigma>
    by (simp add: eval_foldl_Plus comp_def)
  from StorageEnergy_loop_Inr [OF se] en_eq
  have en_val: "eval \<sigma> en =
      (\<Sum>g\<leftarrow>filter (\<lambda>g. gen_is_storage m g = Some True) (GENERATION_PROJECTS m).
         \<sigma> (GenCapacity_at g p) * ?r g)
      + 4 * param_default 0 (storage_adders m) (p, mo)" for \<sigma>
    by (simp add: eval_foldl_Plus comp_def)
  from StorageEnergy_loop_Inr [OF se]
  have ratios: "\<forall>g \<in> set (GENERATION_PROJECTS m).
      gen_is_storage m g = Some True \<longrightarrow> storage_energy_to_power_ratio m g = Some (?r g)"
    by auto
  show ?thesis
  proof (intro exI conjI)
    show "map_of (StorageQC M) (p, mo) = Some qc" by (rule qc_lookup)
    show "map_of (StorageEnergySOD M) (p, mo) = Some en" by (rule en_lookup)
    show "\<forall>g \<in> set (GENERATION_PROJECTS m).
      gen_is_storage m g = Some True \<longrightarrow> storage_energy_to_power_ratio m g = Some (?r g)"
      by (rule ratios)
    show "\<forall>\<sigma>. eval \<sigma> qc =
      (\<Sum>g\<leftarrow>filter (\<lambda>g. gen_is_storage m g = Some True) (GENERATION_PROJECTS m).
         \<sigma> (GenCapacity_at g p))
      + param_default 0 (storage_adders m) (p, mo)"
      using qc_val by blast
    show "\<forall>\<sigma>. eval \<sigma> en =
      (\<Sum>g\<leftarrow>filter (\<lambda>g. gen_is_storage m g = Some True) (GENERATION_PROJECTS m).
         \<sigma> (GenCapacity_at g p) * ?r g)
      + 4 * param_default 0 (storage_adders m) (p, mo)"
      using en_val by blast
  qed
qed

theorem storage_aggregates_witness:
  "define_components demo_model = Inr demo_built \<and>
   2025 \<in> set (PERIODS demo_model) \<and> 1 \<in> set (MONTHS demo_model) \<and>
   (\<exists>storage_qc storage_energy.
      map_of (StorageQC demo_built) (2025, 1) = Some storage_qc \<and>
      map_of (StorageEnergySOD demo_built) (2025, 1) = Some storage_energy \<and>
      eval demo_assignment storage_qc = 25 \<and>
      eval demo_assignment storage_energy = 100)"
proof -
  from storage_aggregates [OF demo_builds demo_index(1) demo_index(2)]
  obtain storage_qc storage_energy ratio where
    q: "map_of (StorageQC demo_built) (2025, 1) = Some storage_qc" and
    en: "map_of (StorageEnergySOD demo_built) (2025, 1) = Some storage_energy" and
    r: "\<forall>g \<in> set (GENERATION_PROJECTS demo_model).
          gen_is_storage demo_model g = Some True \<longrightarrow>
            storage_energy_to_power_ratio demo_model g = Some (ratio g)" and
    qv: "\<forall>\<sigma>. eval \<sigma> storage_qc =
          (\<Sum>g\<leftarrow>filter (\<lambda>g. gen_is_storage demo_model g = Some True)
                (GENERATION_PROJECTS demo_model). \<sigma> (GenCapacity_at g 2025))
          + param_default 0 (storage_adders demo_model) (2025, 1)" and
    ev: "\<forall>\<sigma>. eval \<sigma> storage_energy =
          (\<Sum>g\<leftarrow>filter (\<lambda>g. gen_is_storage demo_model g = Some True)
                (GENERATION_PROJECTS demo_model). \<sigma> (GenCapacity_at g 2025) * ratio g)
          + 4 * param_default 0 (storage_adders demo_model) (2025, 1)"
    by blast
  have adder: "param_default 0 (storage_adders demo_model) (2025, 1) = 5"
    by (simp add: param_default_def demo_model_def)
  from r have "ratio ''battery'' = 4" by (simp add: demo_model_def)
  with qv ev adder have "eval demo_assignment storage_qc = 25"
    "eval demo_assignment storage_energy = 100"
    by (simp_all add: demo_projects(3))
  with q en demo_builds demo_index show ?thesis by blast
qed

subsection \<open>C6: round-trip efficiency\<close>

text \<open>
  C6. For every period and month of a built model, the entry of
  \<open>Storage_Charge_Discharge\<close> equates the total monthly discharge with the total monthly
  charge times \<open>0.8\<close>, so every assignment that satisfies the built model has the sum
  over the hours of \<open>StorageDischarge\<close> equal to \<open>0.8\<close> times the sum over the hours of
  \<open>StorageCharge\<close>. The equality ties the monthly totals only: there is a satisfying
  assignment with an hour in which discharge is not \<open>0.8\<close> times charge.
\<close>

theorem monthly_efficiency_balance:
  assumes built: "define_components m = Inr M"
    and sat: "satisfies M \<sigma>"
    and idx: "p \<in> set (PERIODS m)" "mo \<in> set (MONTHS m)"
  shows "(\<exists>discharge charge.
            map_of (TotalMonthlyDischarge M) (p, mo) = Some discharge \<and>
            map_of (TotalMonthlyCharge M) (p, mo) = Some charge \<and>
            map_of (Storage_Charge_Discharge M) (p, mo) =
              Some (EQ discharge (Times charge (Num 0.8))) \<and>
            (\<forall>\<tau>. eval \<tau> discharge = (\<Sum>h\<leftarrow>HOURS m. \<tau> (StorageDischarge_at p mo h))) \<and>
            (\<forall>\<tau>. eval \<tau> charge = (\<Sum>h\<leftarrow>HOURS m. \<tau> (StorageCharge_at p mo h)))) \<and>
         (\<Sum>h\<leftarrow>HOURS m. \<sigma> (StorageDischarge_at p mo h))
           = 0.8 * (\<Sum>h\<leftarrow>HOURS m. \<sigma> (StorageCharge_at p mo h)) \<and>
         (\<exists>m' M' \<sigma>' p' mo' h'.
            define_components m' = Inr M' \<and> satisfies M' \<sigma>' \<and>
            p' \<in> set (PERIODS m') \<and> mo' \<in> set (MONTHS m') \<and> h' \<in> set (HOURS m') \<and>
            \<sigma>' (StorageDischarge_at p' mo' h') \<noteq> 0.8 * \<sigma>' (StorageCharge_at p' mo' h'))"
proof -
  from idx have i: "(p, mo) \<in> set (idx_pm m)" by (simp add: in_idx_pm)
  have d: "map_of (TotalMonthlyDischarge M) (p, mo) = Some (TotalMonthlyDischarge_rule m p mo)"
    unfolding define_components_total_fields(5) [OF built] using i by (rule table2_lookup)
  have c: "map_of (TotalMonthlyCharge M) (p, mo) = Some (TotalMonthlyCharge_rule m p mo)"
    unfolding define_components_total_fields(6) [OF built] using i by (rule table2_lookup)
  have e: "map_of (Storage_Charge_Discharge M) (p, mo) =
             Some (Storage_Charge_Discharge_rule m p mo)"
    unfolding define_components_total_fields(7) [OF built] using i by (rule table2_lookup)
  have dv: "eval \<tau> (TotalMonthlyDischarge_rule m p mo)
              = (\<Sum>h\<leftarrow>HOURS m. \<tau> (StorageDischarge_at p mo h))" for \<tau>
    by (simp add: TotalMonthlyDischarge_rule_def eval_py_sum comp_def)
  have cv: "eval \<tau> (TotalMonthlyCharge_rule m p mo)
              = (\<Sum>h\<leftarrow>HOURS m. \<tau> (StorageCharge_at p mo h))" for \<tau>
    by (simp add: TotalMonthlyCharge_rule_def eval_py_sum comp_def)
  have entry: "((p, mo), Storage_Charge_Discharge_rule m p mo) \<in> set (Storage_Charge_Discharge M)"
    unfolding define_components_total_fields(7) [OF built] using i by (rule table2_entry)
  from sat have "constraints_hold \<sigma> (Storage_Charge_Discharge M)"
    by (simp add: satisfies_def)
  from constraints_hold_entry [OF this entry]
  have bal: "(\<Sum>h\<leftarrow>HOURS m. \<sigma> (StorageDischarge_at p mo h))
           = 0.8 * (\<Sum>h\<leftarrow>HOURS m. \<sigma> (StorageCharge_at p mo h))"
    by (simp add: Storage_Charge_Discharge_rule_def dv cv)
  have "demo_assignment (StorageDischarge_at 2025 1 1)
          \<noteq> 0.8 * demo_assignment (StorageCharge_at 2025 1 1)"
    by simp
  with demo_builds demo_satisfies demo_index(1) demo_index(2) demo_index(3)
  have hourly: "\<exists>m' M' \<sigma>' p' mo' h'.
      define_components m' = Inr M' \<and> satisfies M' \<sigma>' \<and>
      p' \<in> set (PERIODS m') \<and> mo' \<in> set (MONTHS m') \<and> h' \<in> set (HOURS m') \<and>
      \<sigma>' (StorageDischarge_at p' mo' h') \<noteq> 0.8 * \<sigma>' (StorageCharge_at p' mo' h')"
    by blast
  from d c e dv cv bal hourly show ?thesis
    by (simp add: Storage_Charge_Discharge_rule_def)
qed

theorem monthly_efficiency_balance_witness:
  "define_components demo_model = Inr demo_built \<and>
   satisfies demo_built demo_assignment \<and>
   2025 \<in> set (PERIODS demo_model) \<and> 1 \<in> set (MONTHS demo_model) \<and>
   HOURS demo_model = [1, 2] \<and>
   demo_assignment (StorageDischarge_at 2025 1 1) + demo_assignment (StorageDischarge_at 2025 1 2)
     = 0.8 * (demo_assignment (StorageCharge_at 2025 1 1)
              + demo_assignment (StorageCharge_at 2025 1 2)) \<and>
   demo_assignment (StorageDischarge_at 2025 1 1)
     \<noteq> 0.8 * demo_assignment (StorageCharge_at 2025 1 1)"
proof -
  have hours: "HOURS demo_model = [1, 2]" by (simp add: demo_model_def)
  from monthly_efficiency_balance [OF demo_builds demo_satisfies demo_index(1) demo_index(2)]
  have "(\<Sum>h\<leftarrow>HOURS demo_model. demo_assignment (StorageDischarge_at 2025 1 h))
           = 0.8 * (\<Sum>h\<leftarrow>HOURS demo_model. demo_assignment (StorageCharge_at 2025 1 h))"
    by blast
  then have "demo_assignment (StorageDischarge_at 2025 1 1)
      + demo_assignment (StorageDischarge_at 2025 1 2)
     = 0.8 * (demo_assignment (StorageCharge_at 2025 1 1)
              + demo_assignment (StorageCharge_at 2025 1 2))"
    unfolding hours by simp
  moreover have "demo_assignment (StorageDischarge_at 2025 1 1)
     \<noteq> 0.8 * demo_assignment (StorageCharge_at 2025 1 1)"
    by simp
  ultimately show ?thesis using hours demo_builds demo_satisfies demo_index by blast
qed

subsection \<open>C7: charging and discharging exclude each other\<close>

text \<open>
  C7. For every period, month and hour of a built model, an assignment that satisfies
  the built model does not have both \<open>StorageCharge[p, mo, h] > 0\<close> and
  \<open>StorageDischarge[p, mo, h] > 0\<close>.
\<close>

theorem charge_discharge_exclusive:
  assumes built: "define_components m = Inr M"
    and sat: "satisfies M \<sigma>"
    and idx: "p \<in> set (PERIODS m)" "mo \<in> set (MONTHS m)" "h \<in> set (HOURS m)"
  shows "\<not> (0 < \<sigma> (StorageCharge_at p mo h) \<and> 0 < \<sigma> (StorageDischarge_at p mo h))"
proof -
  from idx have i: "(p, mo, h) \<in> set (idx_pmh m)" by (simp add: in_idx_pmh)
  from sat have ch: "constraints_hold \<sigma> (Charging_State_Constraint M)"
    and dis: "constraints_hold \<sigma> (Discharging_State_Constraint M)"
    by (simp_all add: satisfies_def)
  have "((p, mo, h), Charging_State_Constraint_rule p mo h) \<in> set (Charging_State_Constraint M)"
    unfolding define_components_total_fields(8) [OF built] using i by (rule table3_entry)
  from constraints_hold_entry [OF ch this]
  have 1: "\<sigma> (StorageState_at p mo h) * \<sigma> (StorageCharge_at p mo h) = 0"
    by (simp add: Charging_State_Constraint_rule_def)
  have "((p, mo, h), Discharging_State_Constraint_rule p mo h)
          \<in> set (Discharging_State_Constraint M)"
    unfolding define_components_total_fields(9) [OF built] using i by (rule table3_entry)
  from constraints_hold_entry [OF dis this]
  have 2: "(1 - \<sigma> (StorageState_at p mo h)) * \<sigma> (StorageDischarge_at p mo h) = 0"
    by (simp add: Discharging_State_Constraint_rule_def)
  from 1 2 show ?thesis by auto
qed

theorem charge_discharge_exclusive_witness:
  "define_components demo_model = Inr demo_built \<and>
   satisfies demo_built demo_assignment \<and>
   2025 \<in> set (PERIODS demo_model) \<and> 1 \<in> set (MONTHS demo_model) \<and>
   1 \<in> set (HOURS demo_model) \<and>
   \<not> (0 < demo_assignment (StorageCharge_at 2025 1 1) \<and>
      0 < demo_assignment (StorageDischarge_at 2025 1 1))"
  using charge_discharge_exclusive
    [OF demo_builds demo_satisfies demo_index(1) demo_index(2) demo_index(3)]
    demo_builds demo_satisfies demo_index
  by blast

subsection \<open>C8: cost of the open position\<close>

text \<open>
  C8. For every period of a built model and every month, \<open>MonthlyRAOpenPositionCost[p, mo]\<close>
  is \<open>NewRA[p, mo] \<times> 1000 \<times> ra_sod_cost[p, mo]\<close>; \<open>RAOpenPositionCost[p]\<close> is the sum of
  the monthly costs over the months; and the build appends the one name
  \<open>RAOpenPositionCost\<close> to the cost components of the enclosing model.
\<close>

theorem open_position_cost:
  assumes built: "define_components m = Inr M"
    and idx: "p \<in> set (PERIODS m)"
  shows "\<exists>period_cost monthly_cost unit_cost.
           map_of (RAOpenPositionCost M) p = Some period_cost \<and>
           (\<forall>mo \<in> set (MONTHS m).
              ra_sod_cost m (p, mo) = Some (unit_cost mo) \<and>
              map_of (MonthlyRAOpenPositionCost M) (p, mo) = Some (monthly_cost mo) \<and>
              monthly_cost mo =
                Times (Times (Ref (NewRA_at p mo)) (Num 1000)) (Num (unit_cost mo))) \<and>
           (\<forall>\<sigma>. eval \<sigma> period_cost = (\<Sum>mo\<leftarrow>MONTHS m. eval \<sigma> (monthly_cost mo))) \<and>
           (\<forall>\<sigma>. \<forall>mo \<in> set (MONTHS m).
              eval \<sigma> (monthly_cost mo) = \<sigma> (NewRA_at p mo) * 1000 * unit_cost mo) \<and>
           Cost_Components_Per_Period M = Cost_Components_Per_Period m @ [''RAOpenPositionCost'']"
proof -
  let ?u = "\<lambda>mo. the (ra_sod_cost m (p, mo))"
  let ?c = "\<lambda>mo. Times (Times (Ref (NewRA_at p mo)) (Num 1000)) (Num (?u mo))"
  from construct_lookup [OF define_components_fields(10) [OF built] idx]
  obtain total where total: "RAOpenPositionCost_rule m p = Inr total"
    and total_lookup: "map_of (RAOpenPositionCost M) p = Some total"
    by auto
  from total have loop: "RAOpenPositionCost_loop m p (MONTHS m) (Num 0) = Inr total"
    by (simp add: RAOpenPositionCost_rule_def)
  from RAOpenPositionCost_loop_Inr [OF loop]
  have costs: "\<forall>mo \<in> set (MONTHS m). ra_sod_cost m (p, mo) = Some (?u mo)"
    and total_eq: "total = foldl Plus (Num 0) (map ?c (MONTHS m))"
    by auto
  have monthly: "map_of (MonthlyRAOpenPositionCost M) (p, mo) = Some (?c mo)"
    if "mo \<in> set (MONTHS m)" for mo
  proof -
    from that idx have "(p, mo) \<in> set (idx_pm m)" by (simp add: in_idx_pm)
    from construct_lookup [OF define_components_fields(9) [OF built] this]
    show ?thesis by (auto simp: MonthlyRAOpenPositionCost_rule_def rbind_eq_Inr)
  qed
  from total_eq have total_val:
    "eval \<sigma> total = (\<Sum>mo\<leftarrow>MONTHS m. eval \<sigma> (?c mo))" for \<sigma>
    by (simp add: eval_foldl_Plus comp_def)
  show ?thesis
  proof (intro exI conjI)
    show "map_of (RAOpenPositionCost M) p = Some total" by (rule total_lookup)
    show "\<forall>mo \<in> set (MONTHS m).
          ra_sod_cost m (p, mo) = Some (?u mo) \<and>
          map_of (MonthlyRAOpenPositionCost M) (p, mo) = Some (?c mo) \<and>
          ?c mo = Times (Times (Ref (NewRA_at p mo)) (Num 1000)) (Num (?u mo))"
      using costs monthly by simp
    show "\<forall>\<sigma>. eval \<sigma> total = (\<Sum>mo\<leftarrow>MONTHS m. eval \<sigma> (?c mo))"
      using total_val by blast
    show "\<forall>\<sigma>. \<forall>mo \<in> set (MONTHS m).
      eval \<sigma> (?c mo) = \<sigma> (NewRA_at p mo) * 1000 * ?u mo"
      by simp
    show "Cost_Components_Per_Period M = Cost_Components_Per_Period m @ [''RAOpenPositionCost'']"
      by (rule define_components_total_fields(10) [OF built])
  qed
qed

theorem open_position_cost_witness:
  "define_components demo_model = Inr demo_built \<and>
   2025 \<in> set (PERIODS demo_model) \<and>
   (\<exists>period_cost. map_of (RAOpenPositionCost demo_built) 2025 = Some period_cost \<and>
      eval demo_assignment period_cost = 476000) \<and>
   Cost_Components_Per_Period demo_model = [''TotalGenFixedCosts''] \<and>
   Cost_Components_Per_Period demo_built = [''TotalGenFixedCosts'', ''RAOpenPositionCost'']"
proof -
  from open_position_cost [OF demo_builds demo_index(1)]
  obtain period_cost monthly_cost unit_cost where
    t: "map_of (RAOpenPositionCost demo_built) 2025 = Some period_cost" and
    mo: "\<forall>mo \<in> set (MONTHS demo_model).
          ra_sod_cost demo_model (2025, mo) = Some (unit_cost mo) \<and>
          map_of (MonthlyRAOpenPositionCost demo_built) (2025, mo) = Some (monthly_cost mo) \<and>
          monthly_cost mo =
            Times (Times (Ref (NewRA_at 2025 mo)) (Num 1000)) (Num (unit_cost mo))" and
    tv: "\<forall>\<sigma>. eval \<sigma> period_cost = (\<Sum>mo\<leftarrow>MONTHS demo_model. eval \<sigma> (monthly_cost mo))" and
    mv: "\<forall>\<sigma>. \<forall>mo \<in> set (MONTHS demo_model).
          eval \<sigma> (monthly_cost mo) = \<sigma> (NewRA_at 2025 mo) * 1000 * unit_cost mo" and
    reg: "Cost_Components_Per_Period demo_built
            = Cost_Components_Per_Period demo_model @ [''RAOpenPositionCost'']"
    by blast
  have months: "MONTHS demo_model = [1]" by (simp add: demo_model_def)
  from mo months have "unit_cost 1 = 7" by (simp add: demo_model_def)
  with tv mv months have "eval demo_assignment period_cost = 476000" by simp
  moreover have "Cost_Components_Per_Period demo_model = [''TotalGenFixedCosts'']"
    by (simp add: demo_model_def)
  ultimately show ?thesis using t reg demo_builds demo_index by simp
qed

subsection \<open>C9: raising an exceedance factor\<close>




subsection \<open>C10: the resale value is never read\<close>

lemma HourlyQC_ignores_resell:
  "CalculateHourlyQualifyingCapacities (m\<lparr>ra_sod_resell_value := v\<rparr>) g p mo h
     = CalculateHourlyQualifyingCapacities m g p mo h"
  by (simp add: CalculateHourlyQualifyingCapacities_def cong del: if_weak_cong)

lemma EnergyNQC_loop_ignores_resell:
  "EnergyNQC_loop (m\<lparr>ra_sod_resell_value := v\<rparr>) p mo h gs acc = EnergyNQC_loop m p mo h gs acc"
  by (induction gs arbitrary: acc) (simp_all add: HourlyQC_ignores_resell cong del: if_weak_cong)

lemma StorageCapacity_loop_ignores_resell:
  "StorageCapacity_loop (m\<lparr>ra_sod_resell_value := v\<rparr>) p gs acc = StorageCapacity_loop m p gs acc"
  by (induction gs arbitrary: acc) (simp_all cong del: if_weak_cong)

lemma StorageEnergy_loop_ignores_resell:
  "StorageEnergy_loop (m\<lparr>ra_sod_resell_value := v\<rparr>) p gs acc = StorageEnergy_loop m p gs acc"
  by (induction gs arbitrary: acc) (simp_all cong del: if_weak_cong)

lemma MonthlyCost_ignores_resell:
  "MonthlyRAOpenPositionCost_rule (m\<lparr>ra_sod_resell_value := v\<rparr>) p mo
     = MonthlyRAOpenPositionCost_rule m p mo"
  by (simp add: MonthlyRAOpenPositionCost_rule_def)

lemma RAOpenPositionCost_loop_ignores_resell:
  "RAOpenPositionCost_loop (m\<lparr>ra_sod_resell_value := v\<rparr>) p mos acc
     = RAOpenPositionCost_loop m p mos acc"
  by (induction mos arbitrary: acc) (simp_all add: MonthlyCost_ignores_resell)

lemmas rules_ignore_resell =
  HourlyQC_ignores_resell EnergyNQC_loop_ignores_resell StorageCapacity_loop_ignores_resell
  StorageEnergy_loop_ignores_resell MonthlyCost_ignores_resell
  RAOpenPositionCost_loop_ignores_resell

lemma rules_ignore_resell':
  "CalculateEnergyNQC (m\<lparr>ra_sod_resell_value := v\<rparr>) = CalculateEnergyNQC m"
  "CalculateStorageCapacity (m\<lparr>ra_sod_resell_value := v\<rparr>) = CalculateStorageCapacity m"
  "CalculateStorageEnergy (m\<lparr>ra_sod_resell_value := v\<rparr>) = CalculateStorageEnergy m"
  "TotalMonthlyDischarge_rule (m\<lparr>ra_sod_resell_value := v\<rparr>) = TotalMonthlyDischarge_rule m"
  "TotalMonthlyCharge_rule (m\<lparr>ra_sod_resell_value := v\<rparr>) = TotalMonthlyCharge_rule m"
  "RAOpenPositionCost_rule (m\<lparr>ra_sod_resell_value := v\<rparr>) = RAOpenPositionCost_rule m"
  "idx_pm (m\<lparr>ra_sod_resell_value := v\<rparr>) = idx_pm m"
  "idx_pmh (m\<lparr>ra_sod_resell_value := v\<rparr>) = idx_pmh m"
  "idx_gpmh (m\<lparr>ra_sod_resell_value := v\<rparr>) = idx_gpmh m"
  by (simp_all add: fun_eq_iff CalculateEnergyNQC_def CalculateStorageCapacity_def
        CalculateStorageEnergy_def TotalMonthlyDischarge_rule_def TotalMonthlyCharge_rule_def
        RAOpenPositionCost_rule_def idx_pm_def idx_pmh_def idx_gpmh_def rules_ignore_resell)

lemma constraint_rules_ignore_resell:
  "RA_Position_Constraint_rule (m\<lparr>ra_sod_resell_value := v\<rparr>) = RA_Position_Constraint_rule m"
  "Storage_Energy_Constraint_rule (m\<lparr>ra_sod_resell_value := v\<rparr>)
     = Storage_Energy_Constraint_rule m"
  "Storage_Charge_Discharge_rule (m\<lparr>ra_sod_resell_value := v\<rparr>)
     = Storage_Charge_Discharge_rule m"
  "Hourly_Discharge_Constriant_rule (m\<lparr>ra_sod_resell_value := v\<rparr>)
     = Hourly_Discharge_Constriant_rule m"
  "Hourly_Charge_Constriant_rule (m\<lparr>ra_sod_resell_value := v\<rparr>)
     = Hourly_Charge_Constriant_rule m"
  by (simp_all add: fun_eq_iff RA_Position_Constraint_rule_def Storage_Energy_Constraint_rule_def
        Storage_Charge_Discharge_rule_def Hourly_Discharge_Constriant_rule_def
        Hourly_Charge_Constriant_rule_def rules_ignore_resell')

text \<open>
  C10. No rule of the module reads \<open>ra_sod_resell_value\<close>: two loaded models that differ
  only in that table fail alike or build the same components, constraints and cost
  expressions, the built models differing in that table alone. In particular the cost of
  a negative \<open>NewRA\<close>, which the option \<open>sell\<close> allows, is computed from \<open>ra_sod_cost\<close>.
\<close>

theorem resell_value_never_read:
  "define_components (m\<lparr>ra_sod_resell_value := v\<rparr>)
     = map_sum id (\<lambda>M. M\<lparr>ra_sod_resell_value := v\<rparr>) (define_components m)"
  unfolding define_components_def map_sum_rbind rules_ignore_resell' constraint_rules_ignore_resell
    HourlyQC_ignores_resell MonthlyCost_ignores_resell
  by (intro arg_cong2 [where f = rbind] refl ext) simp_all

theorem resell_value_never_read_witness:
  "define_components (demo_model\<lparr>ra_sod_resell_value := [(2025, 1) \<mapsto> 3]\<rparr>)
     = Inr (demo_built\<lparr>ra_sod_resell_value := [(2025, 1) \<mapsto> 3]\<rparr>)"
  using resell_value_never_read [where m = demo_model and v = "[(2025, 1) \<mapsto> 3]"]
  by (simp add: demo_builds)

end
